theory Spec2Isabelle
  imports Main "HOL-Library.Word" "HOL-Library.AList"
begin

section \<open>Bytes, Base64 and Base64url\<close>

text \<open>
  A Node \<open>Buffer\<close> or \<open>Uint8Array\<close> is a list of bytes. The encryption key
  \<open>crypto.randomBytes(32)\<close> is such a list of length 32; its value is an input of the
  model.
\<close>

type_synonym byte = "8 word"

definition base64_alphabet :: string where
  "base64_alphabet = ''ABCDEFGHIJKLMNOPQRSTUVWXYZabcdefghijklmnopqrstuvwxyz0123456789+/''"

definition base64url_alphabet :: string where
  "base64url_alphabet = ''ABCDEFGHIJKLMNOPQRSTUVWXYZabcdefghijklmnopqrstuvwxyz0123456789-_''"

text \<open>
  The Base64 digits of a byte list, as numbers below 64: three bytes become four digits,
  one or two trailing bytes become two or three.
\<close>

fun to_sextets :: "byte list \<Rightarrow> nat list" where
  "to_sextets [] = []"
| "to_sextets [a] = [unat a div 4, (unat a mod 4) * 16]"
| "to_sextets [a, b] =
     [unat a div 4, (unat a mod 4) * 16 + unat b div 16, (unat b mod 16) * 4]"
| "to_sextets (a # b # c # rest) =
     [unat a div 4, (unat a mod 4) * 16 + unat b div 16,
      (unat b mod 16) * 4 + unat c div 64, unat c mod 64] @ to_sextets rest"

definition base64_padding :: "nat \<Rightarrow> string" where
  "base64_padding n = replicate ((3 - n mod 3) mod 3) (CHR ''='')"

text \<open>\<open>buffer.toString('base64')\<close>: the standard alphabet, padded with \<open>=\<close>.\<close>

definition toString_base64 :: "byte list \<Rightarrow> string" where
  "toString_base64 bs =
     map (\<lambda>s. base64_alphabet ! s) (to_sextets bs) @ base64_padding (length bs)"

text \<open>The Base64url encoding of the compact serialization: URL-safe alphabet, no padding.\<close>

definition base64url_encode :: "byte list \<Rightarrow> string" where
  "base64url_encode bs = map (\<lambda>s. base64url_alphabet ! s) (to_sextets bs)"

text \<open>
  Decoding belongs to the receiving side, the worker process, which is not among the
  sources.
\<close>

text \<open>
  Modelled from the spec: the bytes of a list of Base64 digits, for the receiving side;
  four digits become three bytes, two or three trailing digits become one or two bytes,
  and a single trailing digit is refused.
\<close>

fun from_sextets :: "nat list \<Rightarrow> byte list option" where
  "from_sextets [] = Some []"
| "from_sextets [s0] = None"
| "from_sextets [s0, s1] = Some [of_nat (s0 * 4 + s1 div 16)]"
| "from_sextets [s0, s1, s2] =
     Some [of_nat (s0 * 4 + s1 div 16), of_nat ((s1 mod 16) * 16 + s2 div 4)]"
| "from_sextets (s0 # s1 # s2 # s3 # rest) =
     map_option
       (\<lambda>bs. [of_nat (s0 * 4 + s1 div 16), of_nat ((s1 mod 16) * 16 + s2 div 4),
              of_nat ((s2 mod 4) * 64 + s3)] @ bs)
       (from_sextets rest)"

text \<open>
  Modelled from the spec: the place of a character in an alphabet, for the receiving
  side's decoder.
\<close>

fun index_of :: "'a list \<Rightarrow> 'a \<Rightarrow> nat option" where
  "index_of [] c = None"
| "index_of (x # xs) c = (if x = c then Some 0 else map_option Suc (index_of xs c))"

text \<open>
  Modelled from the spec: the decoding of a text of Base64 digits of an alphabet, for the
  receiving side; a character outside the alphabet is refused.
\<close>

definition decode_digits :: "string \<Rightarrow> string \<Rightarrow> byte list option" where
  "decode_digits al s =
     (case those (map (index_of al) s) of None \<Rightarrow> None | Some ds \<Rightarrow> from_sextets ds)"

text \<open>
  Modelled from the spec: the reader of the InitMessage is the worker process, which is not
  among the sources. Property 9 of the spec has it Base64-decode the \<open>key\<close> field; this is
  the strict decoder of the standard alphabet, trailing padding removed.
\<close>

definition base64_decode :: "string \<Rightarrow> byte list option" where
  "base64_decode s = decode_digits base64_alphabet (takeWhile (\<lambda>c. c \<noteq> CHR ''='') s)"

text \<open>
  Modelled from the spec: the decoder of a Base64url segment of the envelope, on the
  receiving side, which is not among the sources.
\<close>

definition base64url_decode :: "string \<Rightarrow> byte list option" where
  "base64url_decode s = decode_digits base64url_alphabet s"


section \<open>JavaScript values and \<open>JSON.stringify\<close>\<close>

text \<open>
  The values the client builds and passes around: \<open>undefined\<close>, \<open>null\<close>, booleans,
  strings and objects. An object is the list of its properties in insertion order, which
  is the order \<open>JSON.stringify\<close> writes them in. Numbers are left out: nothing in the
  client builds one. A string is held as the UTF-8 bytes of its text, one \<open>char\<close> for each
  byte, so that a character outside ASCII is two to four of them; a string with an unpaired
  surrogate has no such bytes and is outside the model.
\<close>

datatype jsvalue =
    JUndefined
  | JNull
  | JBool bool
  | JString string
  | JObject "(string \<times> jsvalue) list"

definition dquote :: char where
  "dquote = CHR 0x22"

definition backslash :: char where
  "backslash = CHR 0x5C"

definition newline :: char where
  "newline = CHR 0x0A"

definition hex_digit :: "nat \<Rightarrow> char" where
  "hex_digit n = ''0123456789abcdef'' ! (n mod 16)"

text \<open>
  The escapes of \<open>JSON.stringify\<close>: the double quote, the backslash, the five short
  escapes, and \<open>\u00XX\<close> for the other control characters.
\<close>

definition quote_char :: "char \<Rightarrow> string" where
  "quote_char c =
     (if c = dquote then [backslash, dquote]
      else if c = backslash then [backslash, backslash]
      else if c = CHR 0x08 then [backslash, CHR ''b'']
      else if c = CHR 0x0C then [backslash, CHR ''f'']
      else if c = CHR 0x0A then [backslash, CHR ''n'']
      else if c = CHR 0x0D then [backslash, CHR ''r'']
      else if c = CHR 0x09 then [backslash, CHR ''t'']
      else if (of_char c :: nat) < 0x20 then
        [backslash, CHR ''u'', CHR ''0'', CHR ''0'',
         hex_digit (of_char c div 16), hex_digit (of_char c mod 16)]
      else [c])"

definition QuoteJSONString :: "string \<Rightarrow> string" where
  "QuoteJSONString s = dquote # concat (map quote_char s) @ [dquote]"

fun join_with :: "char \<Rightarrow> string list \<Rightarrow> string" where
  "join_with d [] = []"
| "join_with d [s] = s"
| "join_with d (s # t # ss) = s @ d # join_with d (t # ss)"

text \<open>
  \<open>JSON.stringify\<close>: \<open>undefined\<close> has no serialization (the result is \<open>undefined\<close>,
  here \<open>None\<close>), and a property whose value has none is dropped from its object.
\<close>

fun JSON_stringify :: "jsvalue \<Rightarrow> string option"
  and SerializeJSONObject :: "(string \<times> jsvalue) list \<Rightarrow> string list" where
  "JSON_stringify JUndefined = None"
| "JSON_stringify JNull = Some ''null''"
| "JSON_stringify (JBool b) = Some (if b then ''true'' else ''false'')"
| "JSON_stringify (JString s) = Some (QuoteJSONString s)"
| "JSON_stringify (JObject ps) =
     Some (''{'' @ join_with (CHR '','') (SerializeJSONObject ps) @ ''}'')"
| "SerializeJSONObject [] = []"
| "SerializeJSONObject ((k, v) # ps) =
     (case JSON_stringify v of
        None \<Rightarrow> SerializeJSONObject ps
      | Some t \<Rightarrow> (QuoteJSONString k @ '':'' @ t) # SerializeJSONObject ps)"


section \<open>\<open>TextEncoder\<close>: UTF-8\<close>

text \<open>The UTF-8 bytes of a string are the bytes it is held as.\<close>

definition TextEncoder_encode :: "string \<Rightarrow> byte list" where
  "TextEncoder_encode s = map (\<lambda>c. of_nat (of_char c)) s"

text \<open>
  Modelled from the spec: the receiving side's decoder of the plaintext bytes, not among
  the sources. It takes the bytes as the string they are the UTF-8 form of; what a decoder
  does with bytes that are no UTF-8 is not modelled.
\<close>

definition TextDecoder_decode :: "byte list \<Rightarrow> string" where
  "TextDecoder_decode bs = map (\<lambda>b. char_of (unat b)) bs"


section \<open>Reading JSON back\<close>

text \<open>
  The receiving side parses what the client has serialized; its parser is not among the
  sources. The one modelled here reads the texts the client writes: string literals with
  every escape of JSON, and objects whose properties are strings, without white space.
\<close>

text \<open>Modelled from the spec: the receiving side's parser, the value of a hexadecimal digit.\<close>

definition hex_value :: "char \<Rightarrow> nat option" where
  "hex_value c =
     (let n = (of_char c :: nat) in
      if 0x30 \<le> n \<and> n \<le> 0x39 then Some (n - 0x30)
      else if 0x61 \<le> n \<and> n \<le> 0x66 then Some (n - 0x61 + 10)
      else if 0x41 \<le> n \<and> n \<le> 0x46 then Some (n - 0x41 + 10)
      else None)"

text \<open>Modelled from the spec: the receiving side's parser, the number in \<open>\uXXXX\<close>.\<close>

definition hex4_value :: "char \<Rightarrow> char \<Rightarrow> char \<Rightarrow> char \<Rightarrow> nat option" where
  "hex4_value h1 h2 h3 h4 =
     (case (hex_value h1, hex_value h2, hex_value h3, hex_value h4) of
        (Some a, Some b, Some c, Some d) \<Rightarrow> Some (((a * 16 + b) * 16 + c) * 16 + d)
      | _ \<Rightarrow> None)"

text \<open>
  Modelled from the spec: the receiving side's parser, the character that a short escape
  names.
\<close>

definition unescape_char :: "char \<Rightarrow> char option" where
  "unescape_char e =
     (if e = dquote then Some dquote
      else if e = backslash then Some backslash
      else if e = CHR ''/'' then Some (CHR ''/'')
      else if e = CHR ''b'' then Some (CHR 0x08)
      else if e = CHR ''f'' then Some (CHR 0x0C)
      else if e = CHR ''n'' then Some (CHR 0x0A)
      else if e = CHR ''r'' then Some (CHR 0x0D)
      else if e = CHR ''t'' then Some (CHR 0x09)
      else None)"

text \<open>
  Modelled from the spec: the receiving side's parser, the UTF-8 bytes of the character
  that \<open>\uXXXX\<close> names. A surrogate is half of a pair, which this parser does not read.
\<close>

definition utf8_of_code :: "nat \<Rightarrow> string option" where
  "utf8_of_code n =
     (if n < 0x80 then Some [char_of n]
      else if n < 0x800 then Some [char_of (0xC0 + n div 64), char_of (0x80 + n mod 64)]
      else if 0xD800 \<le> n \<and> n < 0xE000 then None
      else Some [char_of (0xE0 + n div 4096), char_of (0x80 + (n div 64) mod 64),
                 char_of (0x80 + n mod 64)])"

text \<open>
  Modelled from the spec: the receiving side's parser, what was read put in front of the
  result for the rest.
\<close>

definition prepend_result ::
  "string \<Rightarrow> (string \<times> string) option \<Rightarrow> (string \<times> string) option" where
  "prepend_result cs r = map_option (\<lambda>(s, rest). (cs @ s, rest)) r"

text \<open>
  Modelled from the spec: the receiving side's parser, on the characters of a string
  literal after its opening quote, up to the closing quote: the string they denote, and
  the input left after the closing quote.
\<close>

fun parse_string_body :: "string \<Rightarrow> (string \<times> string) option" where
  "parse_string_body [] = None"
| "parse_string_body (c # cs) =
     (if c = dquote then Some ([], cs)
      else if c = backslash then
        (case cs of
           [] \<Rightarrow> None
         | e # cs' \<Rightarrow>
             if e = CHR ''u'' then
               (case cs' of
                  h1 # h2 # h3 # h4 # cs'' \<Rightarrow>
                    (case hex4_value h1 h2 h3 h4 of
                       None \<Rightarrow> None
                     | Some n \<Rightarrow>
                         (case utf8_of_code n of
                            None \<Rightarrow> None
                          | Some bytes \<Rightarrow> prepend_result bytes (parse_string_body cs'')))
                | _ \<Rightarrow> None)
             else
               (case unescape_char e of
                  None \<Rightarrow> None
                | Some ch \<Rightarrow> prepend_result [ch] (parse_string_body cs')))
      else if (of_char c :: nat) < 0x20 then None
      else prepend_result [c] (parse_string_body cs))"

text \<open>Modelled from the spec: the receiving side's parser, on a string literal.\<close>

definition parse_string :: "string \<Rightarrow> (string \<times> string) option" where
  "parse_string s =
     (case s of [] \<Rightarrow> None | c # cs \<Rightarrow> if c = dquote then parse_string_body cs else None)"

lemma parse_string_body_shorter:
  "parse_string_body s = Some (v, rest) \<Longrightarrow> length rest < length s"
proof (induction s arbitrary: v rest rule: parse_string_body.induct)
  case 1
  then show ?case by simp
next
  case (2 c cs)
  then show ?case
    by (auto simp: prepend_result_def split: if_splits list.splits option.splits) fastforce+
qed

lemma parse_string_shorter:
  "parse_string s = Some (v, rest) \<Longrightarrow> length rest < length s"
  by (auto simp: parse_string_def split: list.splits if_splits
      dest: parse_string_body_shorter)

text \<open>
  Modelled from the spec: the receiving side's parser, on the properties of an object
  after its opening brace, when there is at least one: \<open>"key":"value"\<close>, then a comma
  and more properties, or the closing brace.
\<close>

function parse_members :: "string \<Rightarrow> ((string \<times> string) list \<times> string) option" where
  "parse_members s =
     (case parse_string s of
        None \<Rightarrow> None
      | Some (k, after_key) \<Rightarrow>
          (case after_key of
             [] \<Rightarrow> None
           | c1 # after_colon \<Rightarrow>
               if c1 \<noteq> CHR '':'' then None
               else
                 (case parse_string after_colon of
                    None \<Rightarrow> None
                  | Some (v, after_value) \<Rightarrow>
                      (case after_value of
                         [] \<Rightarrow> None
                       | c3 # more \<Rightarrow>
                           if c3 = CHR '','' then
                             map_option (\<lambda>(ms, rest). ((k, v) # ms, rest)) (parse_members more)
                           else if c3 = CHR ''}'' then Some ([(k, v)], more)
                           else None))))"
  by pat_completeness auto
termination
proof (relation "measure length")
  show "wf (measure length)" by simp
next
  fix s x2 k after_key c1 after_colon x2a v after_value c3 more
  assume "parse_string s = Some x2" "(k, after_key) = x2" "after_key = c1 # after_colon"
    "parse_string after_colon = Some x2a" "(v, after_value) = x2a"
    "after_value = c3 # more"
  then have "length after_key < length s" "length after_value < length after_colon"
    using parse_string_shorter by metis+
  with \<open>after_key = c1 # after_colon\<close> \<open>after_value = c3 # more\<close>
  show "(more, s) \<in> measure length" by simp
qed

declare parse_members.simps [simp del]

text \<open>
  Modelled from the spec: the receiving side's parser, on an object whose properties are
  strings: the properties in their order, and the input left after the closing brace.
\<close>

definition parse_flat_object :: "string \<Rightarrow> ((string \<times> string) list \<times> string) option" where
  "parse_flat_object s =
     (case s of
        [] \<Rightarrow> None
      | c # cs \<Rightarrow>
          if c \<noteq> CHR ''{'' then None
          else
            (case cs of
               [] \<Rightarrow> None
             | c' # cs' \<Rightarrow> if c' = CHR ''}'' then Some ([], cs') else parse_members cs))"

text \<open>Modelled from the spec: the receiving side's parser, the input after a fixed prefix.\<close>

fun strip_prefix :: "string \<Rightarrow> string \<Rightarrow> string option" where
  "strip_prefix [] s = Some s"
| "strip_prefix (p # ps) [] = None"
| "strip_prefix (p # ps) (c # cs) = (if p = c then strip_prefix ps cs else None)"


section \<open>The credentials payload and its envelope\<close>

datatype error =
    CredentialsProviderError
  | JWEInvalid
  | CipherError
  | TypeError

text \<open>
  \<open>UpdateIamCredentialsRequestData\<close>; an absent \<open>sessionToken\<close> is \<open>None\<close>. The
  \<open>AwsCredentialIdentity\<close> that the credential source returns has these three fields and
  may have more, which the client does not read.
\<close>

record UpdateIamCredentialsRequestData =
  accessKeyId :: string
  secretAccessKey :: string
  sessionToken :: "string option"

type_synonym 'a AwsCredentialIdentity = "'a UpdateIamCredentialsRequestData_scheme"

record UpdateCredentialsRequest =
  data :: string

text \<open>
  The authenticated cipher (AES-256-GCM inside \<open>jose\<close>) is a parameter of the model: from
  the key, the initialization vector, the additional authenticated data and the plaintext
  it gives the ciphertext and the tag, or fails. The initialization vector, which \<open>jose\<close>
  draws at random, is a parameter too.
\<close>

type_synonym cipher =
  "byte list \<Rightarrow> byte list \<Rightarrow> byte list \<Rightarrow> byte list \<Rightarrow> error + (byte list \<times> byte list)"

definition protectedHeader :: jsvalue where
  "protectedHeader = JObject [(''alg'', JString ''dir''), (''enc'', JString ''A256GCM'')]"

text \<open>
  \<open>new jose.CompactEncrypt(plaintext).setProtectedHeader(header).encrypt(key)\<close> for
  direct encryption: the key is the content-encryption key and must have 256 bits, the
  encoded header is the additional authenticated data, and the five Base64url segments are
  joined with dots, the encrypted-key segment being empty.
\<close>

definition CompactEncrypt ::
  "cipher \<Rightarrow> byte list \<Rightarrow> byte list \<Rightarrow> jsvalue \<Rightarrow> byte list \<Rightarrow> error + string" where
  "CompactEncrypt seal iv plaintext header key =
     (if length key \<noteq> 32 then Inl JWEInvalid
      else
        (case JSON_stringify header of
           None \<Rightarrow> Inl JWEInvalid
         | Some h \<Rightarrow>
             (let protected = base64url_encode (TextEncoder_encode h) in
              case seal key iv (TextEncoder_encode protected) plaintext of
                Inl e \<Rightarrow> Inl e
              | Inr (ciphertext, tag) \<Rightarrow>
                  Inr (join_with (CHR ''.'')
                        [protected, [], base64url_encode iv,
                         base64url_encode ciphertext, base64url_encode tag]))))"

definition requestData :: "'a AwsCredentialIdentity \<Rightarrow> jsvalue" where
  "requestData awsCredentials =
     JObject
       [(''accessKeyId'', JString (accessKeyId awsCredentials)),
        (''secretAccessKey'', JString (secretAccessKey awsCredentials)),
        (''sessionToken'',
           case sessionToken awsCredentials of None \<Rightarrow> JUndefined | Some t \<Rightarrow> JString t)]"

text \<open>
  The text that is encrypted: \<open>JSON.stringify({ data: requestData })\<close>. Encoding
  \<open>undefined\<close> would give no bytes.
\<close>

definition payload_text :: "'a AwsCredentialIdentity \<Rightarrow> string" where
  "payload_text awsCredentials =
     (case JSON_stringify (JObject [(''data'', requestData awsCredentials)]) of
        None \<Rightarrow> []
      | Some t \<Rightarrow> t)"

definition createUpdateIamCredentialsRequest ::
  "cipher \<Rightarrow> byte list \<Rightarrow> byte list \<Rightarrow> 'a AwsCredentialIdentity
     \<Rightarrow> error + UpdateCredentialsRequest" where
  "createUpdateIamCredentialsRequest seal iv encryptionKey awsCredentials =
     (let payload = TextEncoder_encode (payload_text awsCredentials) in
      case CompactEncrypt seal iv payload protectedHeader encryptionKey of
        Inl e \<Rightarrow> Inl e
      | Inr jwt \<Rightarrow> Inr \<lparr>data = jwt\<rparr>)"


section \<open>Opening the envelope\<close>

text \<open>
  \<open>s.split(d)\<close>: the segments of a string between the occurrences of a character. The
  segments of an envelope are what this gives for the dot.
\<close>

fun split_on :: "char \<Rightarrow> string \<Rightarrow> string list" where
  "split_on d [] = [[]]"
| "split_on d (c # cs) =
     (if c = d then [] # split_on d cs
      else (case split_on d cs of [] \<Rightarrow> [[c]] | s # ss \<Rightarrow> (c # s) # ss))"

text \<open>
  The inverse of the cipher, a parameter as well: from the key, the initialization vector,
  the additional authenticated data, the ciphertext and the tag it gives the plaintext,
  or fails.
\<close>

type_synonym decipher =
  "byte list \<Rightarrow> byte list \<Rightarrow> byte list \<Rightarrow> byte list \<Rightarrow> byte list \<Rightarrow> byte list option"

text \<open>
  Modelled from the spec: the decryption of section 4.3, which belongs to the receiving
  side and is not among the sources. The envelope must have five segments, an empty
  encrypted-key segment, and a header that names direct encryption with A256GCM; the
  cipher's inverse, a parameter like the cipher, then opens the ciphertext under the key,
  the initialization vector, the encoded header and the tag, or fails.
\<close>

definition compactDecrypt :: "decipher \<Rightarrow> byte list \<Rightarrow> string \<Rightarrow> byte list option" where
  "compactDecrypt unseal key jwe =
     (case split_on (CHR ''.'') jwe of
        [protected, encrypted_key, iv_seg, ciphertext_seg, tag_seg] \<Rightarrow>
          if encrypted_key \<noteq> [] \<or> length key \<noteq> 32 then None
          else
            (case map_option TextDecoder_decode (base64url_decode protected) of
               None \<Rightarrow> None
             | Some h \<Rightarrow>
                 (case parse_flat_object h of
                    Some (ms, []) \<Rightarrow>
                      if map_of ms ''alg'' = Some ''dir'' \<and> map_of ms ''enc'' = Some ''A256GCM''
                      then
                        (case (base64url_decode iv_seg, base64url_decode ciphertext_seg,
                               base64url_decode tag_seg) of
                           (Some iv, Some ciphertext, Some tag) \<Rightarrow>
                             unseal key iv (TextEncoder_encode protected) ciphertext tag
                         | _ \<Rightarrow> None)
                      else None
                  | _ \<Rightarrow> None))
      | _ \<Rightarrow> None)"

text \<open>Modelled from the spec: how the plaintext that the receiving side expects begins.\<close>

definition data_prefix :: string where
  \<open>data_prefix = ''{"data":''\<close>

text \<open>
  Modelled from the spec: the receiving side reads the plaintext
  \<open>{"data":{...}}\<close> back into the credentials payload; \<open>accessKeyId\<close> and
  \<open>secretAccessKey\<close> are required, \<open>sessionToken\<close> is optional.
\<close>

definition parse_payload :: "string \<Rightarrow> UpdateIamCredentialsRequestData option" where
  "parse_payload text =
     (case Option.bind (strip_prefix data_prefix text) parse_flat_object of
        Some (ms, rest) \<Rightarrow>
          if rest \<noteq> ''}'' then None
          else
            (case (map_of ms ''accessKeyId'', map_of ms ''secretAccessKey'') of
               (Some a, Some s) \<Rightarrow>
                 Some \<lparr>accessKeyId = a, secretAccessKey = s,
                       sessionToken = map_of ms ''sessionToken''\<rparr>
             | _ \<Rightarrow> None)
      | None \<Rightarrow> None)"

text \<open>
  Modelled from the spec: \<open>decrypt(envelope, key)\<close> of section 4.3 and property 1, from
  the envelope string back to the credentials payload.
\<close>

definition decrypt ::
  "decipher \<Rightarrow> byte list \<Rightarrow> string \<Rightarrow> UpdateIamCredentialsRequestData option" where
  "decrypt unseal key envelope =
     Option.bind (map_option TextDecoder_decode (compactDecrypt unseal key envelope))
       parse_payload"


section \<open>The key handoff\<close>

text \<open>
  A \<open>Writable\<close> stream is the list of the chunks written to it, oldest first: a stream
  delivers its chunks in the order of the calls of \<open>stream.write\<close>. Writing
  \<open>undefined\<close> throws.
\<close>

type_synonym Writable = "string list"

definition InitMessage :: "byte list \<Rightarrow> jsvalue" where
  "InitMessage encryptionKey =
     JObject
       [(''version'', JString ''1.0''),
        (''mode'', JString ''JWT''),
        (''key'', JString (toString_base64 encryptionKey))]"

definition writeEncryptionInit :: "byte list \<Rightarrow> Writable \<Rightarrow> error + Writable" where
  "writeEncryptionInit encryptionKey stream =
     (case JSON_stringify (InitMessage encryptionKey) of
        None \<Rightarrow> Inl TypeError
      | Some text \<Rightarrow> Inr (stream @ [text, [newline]]))"

text \<open>
  Modelled from the spec: the worker reads the first line of its input and, by property 9
  of the spec, Base64-decodes the \<open>key\<close> field; its code is not among the sources.
\<close>

definition read_init_key :: "string \<Rightarrow> byte list option" where
  "read_init_key line =
     (case parse_flat_object line of
        Some (ms, rest) \<Rightarrow>
          if rest \<noteq> [newline] then None
          else Option.bind (map_of ms ''key'') base64_decode
      | None \<Rightarrow> None)"


section \<open>Client options\<close>

record LanguageClientOptions =
  documentSelector :: "(string \<times> string) list"
  initializationOptions :: jsvalue
  synchronize :: string

text \<open>JavaScript's truthiness, which the test \<open>!clientOptions.initializationOptions\<close> reads.\<close>

fun truthy :: "jsvalue \<Rightarrow> bool" where
  "truthy JUndefined = False"
| "truthy JNull = False"
| "truthy (JBool b) = b"
| "truthy (JString s) = (s \<noteq> [])"
| "truthy (JObject ps) = True"

text \<open>
  The assignment \<open>target.name = v\<close> in a module, which is strict code: on an object it
  sets the property, keeping the place of one that exists; on anything else it throws.
\<close>

fun set_property :: "string \<Rightarrow> jsvalue \<Rightarrow> jsvalue \<Rightarrow> error + jsvalue" where
  "set_property name v (JObject ps) = Inr (JObject (AList.update name v ps))"
| "set_property name v target = Inl TypeError"

definition configureCredentialsCapabilities ::
  "'a LanguageClientOptions_scheme \<Rightarrow> error + 'a LanguageClientOptions_scheme" where
  "configureCredentialsCapabilities clientOptions =
     (let clientOptions1 =
            (if \<not> truthy (initializationOptions clientOptions)
             then clientOptions\<lparr>initializationOptions := JObject []\<rparr>
             else clientOptions)
      in case set_property ''credentials'' (JObject [(''providesIam'', JBool True)])
                (initializationOptions clientOptions1) of
           Inl e \<Rightarrow> Inl e
         | Inr options \<Rightarrow> Inr (clientOptions1\<lparr>initializationOptions := options\<rparr>))"


section \<open>Notifications and commands\<close>

definition iamCredentialsUpdate :: string where
  "iamCredentialsUpdate = ''$/aws/credentials/iam/update''"

definition iamCredentialsDelete :: string where
  "iamCredentialsDelete = ''$/aws/credentials/iam/delete''"

text \<open>
  A notification is its method name and its parameters, \<open>None\<close> when it is sent without
  any. The language client is the list of the notifications sent through it, oldest
  first, and the lines written with \<open>info\<close>. Sending is fire-and-forget: what the
  transport does with a notification is not modelled.
\<close>

record Notification =
  methodName :: string
  params :: "UpdateCredentialsRequest option"

record LanguageClient =
  sent :: "Notification list"
  messages :: "string list"

definition sendNotification ::
  "string \<Rightarrow> UpdateCredentialsRequest option \<Rightarrow> LanguageClient \<Rightarrow> LanguageClient" where
  "sendNotification name body languageClient =
     languageClient\<lparr>sent := sent languageClient @ [\<lparr>methodName = name, params = body\<rparr>]\<rparr>"

definition info :: "string \<Rightarrow> LanguageClient \<Rightarrow> LanguageClient" where
  "info line languageClient = languageClient\<lparr>messages := messages languageClient @ [line]\<rparr>"

definition sendIamCredentialsUpdate ::
  "UpdateCredentialsRequest \<Rightarrow> LanguageClient \<Rightarrow> LanguageClient" where
  "sendIamCredentialsUpdate request languageClient =
     sendNotification iamCredentialsUpdate (Some request) languageClient"

text \<open>
  The select-profile command. The answer of the input box (\<open>None\<close> when it is dismissed)
  and the credential source \<open>fromIni\<close> are inputs; a rejected promise is \<open>Inl\<close>. The
  result is the command's outcome and the language client after it.
\<close>

definition createSelectProfileCommand ::
  "(string option \<Rightarrow> error + 'a AwsCredentialIdentity) \<Rightarrow> cipher \<Rightarrow> byte list \<Rightarrow> byte list
     \<Rightarrow> string option \<Rightarrow> LanguageClient \<Rightarrow> (error + unit) \<times> LanguageClient" where
  "createSelectProfileCommand fromIni seal iv encryptionKey profileName languageClient =
     (case fromIni profileName of
        Inl e \<Rightarrow> (Inl e, languageClient)
      | Inr awsCredentials \<Rightarrow>
          (case createUpdateIamCredentialsRequest seal iv encryptionKey awsCredentials of
             Inl e \<Rightarrow> (Inl e, languageClient)
           | Inr request \<Rightarrow>
               (Inr (),
                info (''Client: The language server is now using credentials profile: ''
                        @ (case profileName of None \<Rightarrow> ''undefined'' | Some n \<Rightarrow> n))
                  (sendIamCredentialsUpdate request languageClient))))"

definition createClearProfileCommand :: "LanguageClient \<Rightarrow> LanguageClient" where
  "createClearProfileCommand languageClient =
     sendNotification iamCredentialsDelete None languageClient"


section \<open>Activation\<close>

text \<open>
  The server options are the module to run over IPC with its \<open>execArgv\<close>, or a function
  that returns the child process already spawned. The child is its command line and what
  has been written to its standard input.
\<close>

record ChildProcess =
  command :: string
  args :: "string list"
  stdin :: Writable

datatype ServerOptions =
    NodeModule string "string list"
  | Spawned ChildProcess

text \<open>
  Modelled from the spec: the language client is a library and not among the sources. By
  section 4.2 of the spec it transmits its protocol frames on the same stream as the
  InitMessage, the standard input of the child it is given; a module that it runs itself
  it reaches over IPC, not through a standard input.
\<close>

fun transmit :: "ServerOptions \<Rightarrow> string list \<Rightarrow> ServerOptions" where
  "transmit (Spawned child) frames = Spawned (child\<lparr>stdin := stdin child @ frames\<rparr>)"
| "transmit (NodeModule serverModule execArgv) frames = NodeModule serverModule execArgv"

text \<open>What the activation does to the world, in order.\<close>

datatype event =
    Spawn string "string list"
  | StdinWrite string
  | RegisterCommand string
  | RegisterInlineCompletion
  | ClientStart ServerOptions LanguageClientOptions

definition registerIamCredentialsProviderSupport :: "event list" where
  "registerIamCredentialsProviderSupport =
     [RegisterCommand ''awslsp.selectProfile'', RegisterCommand ''awslsp.clearProfile'']"

definition enableIamProvider :: "(string \<rightharpoonup> string) \<Rightarrow> bool" where
  "enableIamProvider env = (env ''ENABLE_IAM_PROVIDER'' = Some ''true'')"

definition enableBearerTokenProvider :: "(string \<rightharpoonup> string) \<Rightarrow> bool" where
  "enableBearerTokenProvider env = (env ''ENABLE_TOKEN_PROVIDER'' = Some ''true'')"

definition enableEncryptionInit :: "(string \<rightharpoonup> string) \<Rightarrow> bool" where
  "enableEncryptionInit env = (enableIamProvider env \<or> enableBearerTokenProvider env)"

definition enableInlineCompletion :: "(string \<rightharpoonup> string) \<Rightarrow> bool" where
  "enableInlineCompletion env = (env ''ENABLE_INLINE_COMPLETION'' = Some ''true'')"

definition initialClientOptions :: LanguageClientOptions where
  "initialClientOptions =
     \<lparr>documentSelector =
        [(''file'', ''yaml''), (''untitled'', ''yaml''),
         (''file'', ''json''), (''untitled'', ''json''),
         (''file'', ''typescript''), (''untitled'', ''typescript'')],
      initializationOptions = JObject [],
      synchronize = ''**/*.{json,yml,yaml,ts}''\<rparr>"

text \<open>
  The part of \<open>activateDocumentsLanguageServer\<close> that sets \<open>serverOptions\<close>. With the
  handoff, the two arguments are pushed, the child is spawned and \<open>writeEncryptionInit\<close>
  writes to its standard input, which is empty until then; without it, nothing is spawned
  here and the client will run the module over IPC. The result is the events of the launch
  and the server options.
\<close>

definition launchServer ::
  "bool \<Rightarrow> string \<Rightarrow> byte list \<Rightarrow> error + (event list \<times> ServerOptions)" where
  "launchServer encryptionInit serverModule encryptionKey =
     (let execArgv = [''--nolazy'', ''--inspect=6012'', ''--preserve-symlinks''] in
      if encryptionInit then
        (let argv = serverModule # execArgv @ [''--stdio'', ''--pre-init-encryption''] in
         case writeEncryptionInit encryptionKey [] of
           Inl e \<Rightarrow> Inl e
         | Inr written \<Rightarrow>
             Inr (Spawn ''node'' argv # map StdinWrite written,
                  Spawned \<lparr>command = ''node'', args = argv, stdin = written\<rparr>))
      else Inr ([], NodeModule serverModule execArgv))"

text \<open>
  \<open>activateDocumentsLanguageServer\<close>. The environment, the fallback path of the server
  module (the result of \<open>path.join\<close>) and the encryption key of the credentials module
  are inputs. The last thing it does is \<open>client.start()\<close>; the client sends protocol
  frames only once it is started.
\<close>

definition activateDocumentsLanguageServer ::
  "(string \<rightharpoonup> string) \<Rightarrow> string \<Rightarrow> byte list \<Rightarrow> error + event list" where
  "activateDocumentsLanguageServer env fallbackPath encryptionKey =
     (let serverModule = (case env ''LSP_SERVER'' of None \<Rightarrow> fallbackPath | Some m \<Rightarrow> m) in
      case launchServer (enableEncryptionInit env) serverModule encryptionKey of
        Inl e \<Rightarrow> Inl e
      | Inr (launched, serverOptions) \<Rightarrow>
          (case (if enableIamProvider env
                 then configureCredentialsCapabilities initialClientOptions
                 else Inr initialClientOptions) of
             Inl e \<Rightarrow> Inl e
           | Inr clientOptions \<Rightarrow>
               Inr (launched
                    @ (if enableIamProvider env then registerIamCredentialsProviderSupport
                       else [])
                    @ (if enableInlineCompletion env then [RegisterInlineCompletion] else [])
                    @ [ClientStart serverOptions clientOptions])))"

text \<open>The chunks written to a standard input, and the events that start the client.\<close>

fun stdin_writes :: "event list \<Rightarrow> string list" where
  "stdin_writes [] = []"
| "stdin_writes (StdinWrite chunk # es) = chunk # stdin_writes es"
| "stdin_writes (e # es) = stdin_writes es"

fun is_ClientStart :: "event \<Rightarrow> bool" where
  "is_ClientStart (ClientStart so co) = True"
| "is_ClientStart e = False"






section \<open>Auxiliary definitions of the proofs\<close>

text \<open>One serialized property whose value is a string.\<close>

definition member_text :: "string \<times> string \<Rightarrow> string" where
  "member_text kv = QuoteJSONString (fst kv) @ '':'' @ QuoteJSONString (snd kv)"

text \<open>The properties that \<open>JSON.stringify\<close> keeps of \<open>requestData\<close>.\<close>

definition payload_fields :: "'a AwsCredentialIdentity \<Rightarrow> (string \<times> string) list" where
  "payload_fields c =
     [(''accessKeyId'', accessKeyId c), (''secretAccessKey'', secretAccessKey c)]
     @ (case sessionToken c of None \<Rightarrow> [] | Some t \<Rightarrow> [(''sessionToken'', t)])"

text \<open>The registrations between the launch and the start of the client.\<close>

definition registrations :: "(string \<rightharpoonup> string) \<Rightarrow> event list" where
  "registrations env =
     (if enableIamProvider env then registerIamCredentialsProviderSupport else [])
     @ (if enableInlineCompletion env then [RegisterInlineCompletion] else [])"

text \<open>
  A stand-in for the cipher and its inverse, to run the model on concrete inputs: it adds
  one to every byte and takes the first 16 bytes of the key as the tag. It is no model of
  AES-GCM.
\<close>

definition example_seal :: cipher where
  "example_seal key iv aad plaintext = Inr (map (\<lambda>b. b + 1) plaintext, take 16 key)"

definition example_unseal :: decipher where
  "example_unseal key iv aad ciphertext tag =
     (if tag = take 16 key then Some (map (\<lambda>b. b - 1) ciphertext) else None)"


section \<open>Base64 round trip\<close>

lemma byte_lt: "unat (a::byte) < 256"
  using unsigned_less [of a] by simp

lemma of_nat_unat_byte: "of_nat (unat a) = (a::byte)"
  by simp

lemma unat_of_nat_byte: "n < 256 \<Longrightarrow> unat (of_nat n :: byte) = n"
  by (simp add: unat_of_nat)

lemma digits_first_byte: "y < 256 \<Longrightarrow> (x div 4) * 4 + ((x mod 4) * 16 + y div 16) div 16 = (x::nat)"
  by simp
lemma digits_first_byte_last: "(x div 4) * 4 + ((x mod 4) * 16) div 16 = (x::nat)"
  by simp
lemma digits_second_byte: "y < 256 \<Longrightarrow> z < 256 \<Longrightarrow> (((x mod 4) * 16 + y div 16) mod 16) * 16 + ((y mod 16) * 4 + z div 64) div 4 = (y::nat)"
  by simp
lemma digits_second_byte_last: "y < 256 \<Longrightarrow> (((x mod 4) * 16 + y div 16) mod 16) * 16 + ((y mod 16) * 4) div 4 = (y::nat)"
  by simp
lemma digits_third_byte: "z < 256 \<Longrightarrow> (((y mod 16) * 4 + z div 64) mod 4) * 64 + z mod 64 = (z::nat)"
  by simp

lemma sextets_first_byte:
  fixes a b c :: byte
  shows "of_nat ((unat a div 4) * 4 + ((unat a mod 4) * 16 + unat b div 16) div 16) = (a::byte)"
proof -
  have "(unat a div 4) * 4 + ((unat a mod 4) * 16 + unat b div 16) div 16 = unat a"
    by (rule digits_first_byte, rule byte_lt)
  then show ?thesis by (simp only: of_nat_unat_byte)
qed

lemma sextets_first_byte_last:
  fixes a b c :: byte
  shows "of_nat ((unat a div 4) * 4 + ((unat a mod 4) * 16) div 16) = (a::byte)"
  by (simp only: digits_first_byte_last of_nat_unat_byte)

lemma sextets_second_byte:
  fixes a b c :: byte
  shows "of_nat ((((unat a mod 4) * 16 + unat b div 16) mod 16) * 16 + ((unat b mod 16) * 4 + unat c div 64) div 4) = (b::byte)"
proof -
  have "(((unat a mod 4) * 16 + unat b div 16) mod 16) * 16 + ((unat b mod 16) * 4 + unat c div 64) div 4 = unat b"
    by (rule digits_second_byte; rule byte_lt)
  then show ?thesis by (simp only: of_nat_unat_byte)
qed

lemma sextets_second_byte_last:
  fixes a b c :: byte
  shows "of_nat ((((unat a mod 4) * 16 + unat b div 16) mod 16) * 16 + ((unat b mod 16) * 4) div 4) = (b::byte)"
proof -
  have "(((unat a mod 4) * 16 + unat b div 16) mod 16) * 16 + ((unat b mod 16) * 4) div 4 = unat b"
    by (rule digits_second_byte_last, rule byte_lt)
  then show ?thesis by (simp only: of_nat_unat_byte)
qed

lemma sextets_third_byte:
  fixes a b c :: byte
  shows "of_nat ((((unat b mod 16) * 4 + unat c div 64) mod 4) * 64 + unat c mod 64) = (c::byte)"
proof -
  have "(((unat b mod 16) * 4 + unat c div 64) mod 4) * 64 + unat c mod 64 = unat c"
    by (rule digits_third_byte, rule byte_lt)
  then show ?thesis by (simp only: of_nat_unat_byte)
qed

lemma from_to_sextets: "from_sextets (to_sextets bs) = Some bs"
proof (induction bs rule: to_sextets.induct)
  case 1
  show ?case by simp
next
  case (2 a)
  show ?case by (simp only: to_sextets.simps from_sextets.simps sextets_first_byte_last)
next
  case (3 a b)
  show ?case by (simp only: to_sextets.simps from_sextets.simps sextets_first_byte sextets_second_byte_last)
next
  case (4 a b c rest)
  then show ?case
    by (simp only: to_sextets.simps from_sextets.simps append.simps sextets_first_byte sextets_second_byte sextets_third_byte option.map)
qed

lemma to_sextets_lt: "s \<in> set (to_sextets bs) \<Longrightarrow> s < 64"
proof (induction bs arbitrary: s rule: to_sextets.induct)
  case 1
  then show ?case by simp
next
  case (2 a)
  then show ?case using byte_lt [of a] by auto
next
  case (3 a b)
  then show ?case using byte_lt [of a] byte_lt [of b] by auto
next
  case (4 a b c rest)
  then show ?case using byte_lt [of a] byte_lt [of b] byte_lt [of c] by auto
qed

lemma length_to_sextets: "length (to_sextets bs) = (length bs * 4 + 2) div 3"
  by (induction bs rule: to_sextets.induct) simp_all

lemma index_of_nth: "distinct xs \<Longrightarrow> n < length xs \<Longrightarrow> index_of xs (xs ! n) = Some n"
proof (induction xs arbitrary: n)
  case Nil
  then show ?case by simp
next
  case (Cons x xs)
  then show ?case by (cases n) auto
qed

lemma those_index_of:
  "distinct al \<Longrightarrow> \<forall>d \<in> set ds. d < length al \<Longrightarrow>
   those (map (index_of al) (map ((!) al) ds)) = Some ds"
  by (induction ds) (simp_all add: index_of_nth)

lemma decode_digits_encode:
  assumes "distinct al" and "length al = 64"
  shows "decode_digits al (map ((!) al) (to_sextets bs)) = Some bs"
proof -
  have "\<forall>d \<in> set (to_sextets bs). d < length al"
    using assms(2) to_sextets_lt by auto
  then have "those (map (index_of al) (map ((!) al) (to_sextets bs))) = Some (to_sextets bs)"
    using assms(1) by (rule those_index_of [rotated])
  then show ?thesis
    by (simp only: decode_digits_def option.case from_to_sextets)
qed

lemma distinct_base64_alphabet: "distinct base64_alphabet"
  by (simp add: base64_alphabet_def)

lemma distinct_base64url_alphabet: "distinct base64url_alphabet"
  by (simp add: base64url_alphabet_def)

lemma length_base64_alphabet: "length base64_alphabet = 64"
  by (simp add: base64_alphabet_def)

lemma length_base64url_alphabet: "length base64url_alphabet = 64"
  by (simp add: base64url_alphabet_def)

lemma digits_in_alphabet:
  assumes "length al = 64" and "c \<in> set (map ((!) al) (to_sextets bs))"
  shows "c \<in> set al"
proof -
  from assms(2) obtain d where d: "d \<in> set (to_sextets bs)" "c = al ! d"
    by auto
  from d(1) have "d < length al"
    using assms(1) to_sextets_lt by auto
  with d(2) show ?thesis by simp
qed

lemma base64url_encode_in_alphabet:
  "c \<in> set (base64url_encode bs) \<Longrightarrow> c \<in> set base64url_alphabet"
  unfolding base64url_encode_def by (rule digits_in_alphabet [OF length_base64url_alphabet])

lemma takeWhile_padding:
  "x \<notin> set xs \<Longrightarrow> takeWhile (\<lambda>c. c \<noteq> x) (xs @ replicate n x) = xs"
  by (induction xs) (auto simp: takeWhile_eq_Nil_iff)

lemma base64_decode_toString: "base64_decode (toString_base64 bs) = Some bs"
proof -
  have "CHR ''='' \<notin> set (map ((!) base64_alphabet) (to_sextets bs))"
    using digits_in_alphabet [OF length_base64_alphabet, of "CHR ''=''" bs]
    by (auto simp: base64_alphabet_def)
  then have "takeWhile (\<lambda>c. c \<noteq> CHR ''='') (toString_base64 bs)
      = map ((!) base64_alphabet) (to_sextets bs)"
    unfolding toString_base64_def base64_padding_def by (rule takeWhile_padding)
  then show ?thesis
    unfolding base64_decode_def
    by (simp only: decode_digits_encode [OF distinct_base64_alphabet length_base64_alphabet])
qed

lemma base64url_decode_encode: "base64url_decode (base64url_encode bs) = Some bs"
  unfolding base64url_decode_def base64url_encode_def
  by (simp add: decode_digits_encode distinct_base64url_alphabet length_base64url_alphabet)

lemma base64url_encode_no_dot: "CHR ''.'' \<notin> set (base64url_encode bs)"
  using base64url_encode_in_alphabet [of "CHR ''.''" bs] by (auto simp: base64url_alphabet_def)

section \<open>String literals round trip\<close>

lemma hex_value_hex_digit: "d < 16 \<Longrightarrow> hex_value (hex_digit d) = Some d"
proof -
  assume "d < 16"
  then have "d = 0 \<or> d = 1 \<or> d = 2 \<or> d = 3 \<or> d = 4 \<or> d = 5 \<or> d = 6 \<or> d = 7
      \<or> d = 8 \<or> d = 9 \<or> d = 10 \<or> d = 11 \<or> d = 12 \<or> d = 13 \<or> d = 14 \<or> d = 15"
    by arith
  then show ?thesis
    by (auto simp: hex_value_def hex_digit_def)
qed

lemma hex4_value_control:
  assumes "n < 256"
  shows "hex4_value (CHR ''0'') (CHR ''0'') (hex_digit (n div 16)) (hex_digit (n mod 16)) = Some n"
proof -
  have a: "hex_value (hex_digit (n div 16)) = Some (n div 16)"
    using assms by (intro hex_value_hex_digit) simp
  have b: "hex_value (hex_digit (n mod 16)) = Some (n mod 16)"
    by (intro hex_value_hex_digit) simp
  have z: "hex_value (CHR ''0'') = Some 0"
    by (simp add: hex_value_def)
  show ?thesis by (simp add: hex4_value_def a b z)
qed

lemma of_char_lt_256: "(of_char c :: nat) < 256"
  by simp

lemma parse_string_body_quote_char:
  "parse_string_body (quote_char c @ xs) = prepend_result [c] (parse_string_body xs)"
proof -
  have u: "hex4_value (CHR ''0'') (CHR ''0'') (hex_digit (of_char c div 16)) (hex_digit (of_char c mod 16))
      = Some (of_char c)"
    by (rule hex4_value_control) (rule of_char_lt_256)
  show ?thesis
    by (simp add: quote_char_def u unescape_char_def utf8_of_code_def dquote_def backslash_def)
qed

lemma parse_string_body_quote:
  "parse_string_body (concat (map quote_char s) @ dquote # rest) = Some (s, rest)"
proof (induction s)
  case Nil
  show ?case by simp
next
  case (Cons c s)
  have "parse_string_body (concat (map quote_char (c # s)) @ dquote # rest)
      = parse_string_body (quote_char c @ (concat (map quote_char s) @ dquote # rest))"
    by simp
  also have "\<dots> = prepend_result [c] (Some (s, rest))"
    by (simp only: parse_string_body_quote_char Cons.IH)
  finally show ?case by (simp add: prepend_result_def)
qed

lemma parse_string_quote: "parse_string (QuoteJSONString s @ rest) = Some (s, rest)"
  using parse_string_body_quote [of s rest]
  by (simp add: parse_string_def QuoteJSONString_def)

section \<open>Objects round trip\<close>

lemma SerializeJSONObject_strings:
  "SerializeJSONObject (map (\<lambda>(k, v). (k, JString v)) kvs) = map member_text kvs"
  by (induction kvs) (auto simp: member_text_def)

lemma parse_members_last:
  "parse_members (member_text (k, v) @ CHR ''}'' # rest) = Some ([(k, v)], rest)"
  by (subst parse_members.simps) (simp add: member_text_def parse_string_quote)

lemma parse_members_more:
  "parse_members (member_text (k, v) @ CHR '','' # xs)
     = map_option (\<lambda>(ms, rest). ((k, v) # ms, rest)) (parse_members xs)"
  by (subst parse_members.simps) (simp add: member_text_def parse_string_quote)

lemma parse_members_join:
  "kvs \<noteq> [] \<Longrightarrow>
   parse_members (join_with (CHR '','') (map member_text kvs) @ CHR ''}'' # rest) = Some (kvs, rest)"
proof (induction kvs rule: induct_list012)
  case 1
  then show ?case by simp
next
  case (2 kv)
  then show ?case by (cases kv) (simp add: parse_members_last)
next
  case (3 kv kv' kvs)
  then show ?case by (cases kv) (simp add: parse_members_more)
qed

lemma member_text_starts_with_quote: "member_text kv = dquote # tl (member_text kv)"
  by (simp add: member_text_def QuoteJSONString_def)

lemma parse_flat_object_strings:
  "JSON_stringify (JObject (map (\<lambda>(k, v). (k, JString v)) kvs)) = Some t \<Longrightarrow>
   parse_flat_object (t @ rest) = Some (kvs, rest)"
proof (cases kvs)
  case Nil
  assume "JSON_stringify (JObject (map (\<lambda>(k, v). (k, JString v)) kvs)) = Some t"
  with Nil show ?thesis by (auto simp: parse_flat_object_def)
next
  case (Cons kv kvs')
  assume "JSON_stringify (JObject (map (\<lambda>(k, v). (k, JString v)) kvs)) = Some t"
  then have t: "t = CHR ''{'' # join_with (CHR '','') (map member_text kvs) @ ''}''"
    by (simp only: JSON_stringify.simps SerializeJSONObject_strings option.inject) simp
  obtain body where body: "join_with (CHR '','') (map member_text kvs) = dquote # body"
    using Cons member_text_starts_with_quote [of kv]
    by (cases kvs') (auto, metis append_Cons)
  have "parse_flat_object (t @ rest)
      = parse_members (join_with (CHR '','') (map member_text kvs) @ CHR ''}'' # rest)"
    unfolding t parse_flat_object_def by (simp add: body dquote_def)
  also have "\<dots> = Some (kvs, rest)"
    using Cons by (intro parse_members_join) simp
  finally show ?thesis .
qed

section \<open>UTF-8 round trip\<close>

lemma TextDecoder_TextEncoder: "TextDecoder_decode (TextEncoder_encode s) = s"
proof -
  have "char_of (unat (of_nat (of_char c) :: byte)) = c" for c
    by (simp add: unat_of_nat_byte)
  then show ?thesis
    by (simp add: TextDecoder_decode_def TextEncoder_encode_def comp_def)
qed


section \<open>Splitting what was joined\<close>

lemma split_on_no_delimiter: "d \<notin> set s \<Longrightarrow> split_on d s = [s]"
  by (induction s) auto

lemma split_on_append:
  "d \<notin> set s \<Longrightarrow> split_on d (s @ d # rest) = s # split_on d rest"
  by (induction s) auto

lemma split_on_join:
  "segs \<noteq> [] \<Longrightarrow> \<forall>s \<in> set segs. d \<notin> set s \<Longrightarrow> split_on d (join_with d segs) = segs"
proof (induction segs rule: induct_list012)
  case 1
  then show ?case by simp
next
  case (2 s)
  then show ?case by (simp add: split_on_no_delimiter)
next
  case (3 s t ss)
  then show ?case by (simp add: split_on_append)
qed

section \<open>The InitMessage, written and read\<close>

lemma quote_char_base64: "c \<in> set base64_alphabet \<or> c = CHR ''='' \<Longrightarrow> quote_char c = [c]"
  by (auto simp: base64_alphabet_def quote_char_def dquote_def backslash_def)

lemma quote_plain: "\<forall>c \<in> set s. quote_char c = [c] \<Longrightarrow> concat (map quote_char s) = s"
  by (induction s) simp_all

lemma toString_base64_chars:
  "c \<in> set (toString_base64 bs) \<Longrightarrow> c \<in> set base64_alphabet \<or> c = CHR ''=''"
  unfolding toString_base64_def base64_padding_def
  using digits_in_alphabet [OF length_base64_alphabet, of c bs] by auto

lemma QuoteJSONString_base64:
  "QuoteJSONString (toString_base64 bs) = dquote # toString_base64 bs @ [dquote]"
  unfolding QuoteJSONString_def
  using quote_plain [of "toString_base64 bs"] toString_base64_chars quote_char_base64
  by auto

lemma length_toString_base64_32: "length bs = 32 \<Longrightarrow> length (toString_base64 bs) = 44"
  by (simp add: toString_base64_def base64_padding_def length_to_sextets)

lemma JSON_stringify_InitMessage:
  \<open>JSON_stringify (InitMessage k)
     = Some (''{"version":"1.0","mode":"JWT","key":"'' @ toString_base64 k @ ''"}'')\<close>
  by (simp add: InitMessage_def QuoteJSONString_base64)
     (simp add: QuoteJSONString_def quote_char_def dquote_def backslash_def)

lemma InitMessage_strings:
  "InitMessage k = JObject (map (\<lambda>(k, v). (k, JString v))
     [(''version'', ''1.0''), (''mode'', ''JWT''), (''key'', toString_base64 k)])"
  by (simp add: InitMessage_def)

lemma read_init_key_InitMessage:
  assumes "JSON_stringify (InitMessage k) = Some text"
  shows "read_init_key (text @ [newline]) = Some k"
proof -
  have "parse_flat_object (text @ [newline])
      = Some ([(''version'', ''1.0''), (''mode'', ''JWT''), (''key'', toString_base64 k)], [newline])"
    using assms unfolding InitMessage_strings by (rule parse_flat_object_strings)
  then show ?thesis
    by (simp add: read_init_key_def base64_decode_toString)
qed

section \<open>The envelope, sealed and opened\<close>

lemma strip_prefix_append: "strip_prefix p (p @ s) = Some s"
  by (induction p) simp_all

lemma JSON_stringify_requestData:
  "JSON_stringify (requestData c)
     = JSON_stringify (JObject (map (\<lambda>(k, v). (k, JString v)) (payload_fields c)))"
  by (cases "sessionToken c") (simp_all add: requestData_def payload_fields_def)

lemma payload_text_eq:
  "\<exists>t. JSON_stringify (requestData c) = Some t \<and> payload_text c = data_prefix @ t @ ''}''"
  by (simp add: payload_text_def requestData_def data_prefix_def QuoteJSONString_def
      quote_char_def dquote_def backslash_def)

lemma parse_payload_payload_text:
  "parse_payload (payload_text c)
     = Some \<lparr>accessKeyId = accessKeyId c, secretAccessKey = secretAccessKey c,
             sessionToken = sessionToken c\<rparr>"
proof -
  obtain t where t: "JSON_stringify (requestData c) = Some t"
    and p: "payload_text c = data_prefix @ t @ ''}''"
    using payload_text_eq by blast
  have "parse_flat_object (t @ ''}'') = Some (payload_fields c, ''}'')"
    using t unfolding JSON_stringify_requestData by (rule parse_flat_object_strings)
  then show ?thesis
    unfolding parse_payload_def p strip_prefix_append
    by (cases "sessionToken c") (simp_all add: payload_fields_def)
qed

lemma protectedHeader_strings:
  "protectedHeader = JObject (map (\<lambda>(k, v). (k, JString v)) [(''alg'', ''dir''), (''enc'', ''A256GCM'')])"
  by (simp add: protectedHeader_def)

lemma parse_protectedHeader:
  assumes "JSON_stringify protectedHeader = Some h"
  shows "parse_flat_object h = Some ([(''alg'', ''dir''), (''enc'', ''A256GCM'')], [])"
  using parse_flat_object_strings [OF assms [unfolded protectedHeader_strings], of "[]"]
  by simp

lemma CompactEncrypt_Inr:
  assumes "CompactEncrypt seal iv plaintext header key = Inr jwe"
  shows "length key = 32 \<and>
    (\<exists>h ciphertext tag.
       JSON_stringify header = Some h
     \<and> seal key iv (TextEncoder_encode (base64url_encode (TextEncoder_encode h))) plaintext
         = Inr (ciphertext, tag)
     \<and> jwe = join_with (CHR ''.'')
         [base64url_encode (TextEncoder_encode h), [], base64url_encode iv,
          base64url_encode ciphertext, base64url_encode tag])"
  using assms
  by (auto simp: CompactEncrypt_def Let_def split: if_splits option.splits sum.splits)

lemma CompactEncrypt_total:
  assumes "length key = 32"
    and "\<And>aad plaintext. \<exists>ciphertext tag. seal key iv aad plaintext = Inr (ciphertext, tag)"
  shows "\<exists>jwe. CompactEncrypt seal iv plaintext protectedHeader key = Inr jwe"
proof -
  obtain h where h: "JSON_stringify protectedHeader = Some h"
    by (simp add: protectedHeader_def)
  obtain ciphertext tag where
    "seal key iv (TextEncoder_encode (base64url_encode (TextEncoder_encode h))) plaintext
       = Inr (ciphertext, tag)"
    using assms(2) by blast
  then show ?thesis
    by (simp add: CompactEncrypt_def assms(1) h Let_def)
qed

lemma createUpdateIamCredentialsRequest_total:
  assumes "length key = 32"
    and "\<And>aad plaintext. \<exists>ciphertext tag. seal key iv aad plaintext = Inr (ciphertext, tag)"
  shows "\<exists>request. createUpdateIamCredentialsRequest seal iv key awsCredentials = Inr request"
proof -
  obtain jwe where
    "CompactEncrypt seal iv (TextEncoder_encode (payload_text awsCredentials)) protectedHeader key
       = Inr jwe"
    using CompactEncrypt_total [where seal = seal and key = key and iv = iv, OF assms] by blast
  then show ?thesis
    by (simp add: createUpdateIamCredentialsRequest_def Let_def)
qed

lemma split_envelope:
  "split_on (CHR ''.'')
     (join_with (CHR ''.'')
        [base64url_encode a, [], base64url_encode b, base64url_encode c, base64url_encode d])
   = [base64url_encode a, [], base64url_encode b, base64url_encode c, base64url_encode d]"
  by (rule split_on_join) (simp_all add: base64url_encode_no_dot)

lemma compactDecrypt_CompactEncrypt:
  assumes sound: "\<And>aad plaintext ciphertext tag.
      seal key iv aad plaintext = Inr (ciphertext, tag)
      \<Longrightarrow> unseal key iv aad ciphertext tag = Some plaintext"
    and enc: "CompactEncrypt seal iv plaintext protectedHeader key = Inr jwe"
  shows "compactDecrypt unseal key jwe = Some plaintext"
proof -
  from CompactEncrypt_Inr [OF enc] obtain h ciphertext tag where
    len: "length key = 32"
    and h: "JSON_stringify protectedHeader = Some h"
    and sealed: "seal key iv (TextEncoder_encode (base64url_encode (TextEncoder_encode h))) plaintext
         = Inr (ciphertext, tag)"
    and jwe: "jwe = join_with (CHR ''.'')
         [base64url_encode (TextEncoder_encode h), [], base64url_encode iv,
          base64url_encode ciphertext, base64url_encode tag]"
    by blast
  have opened: "unseal key iv (TextEncoder_encode (base64url_encode (TextEncoder_encode h)))
      ciphertext tag = Some plaintext"
    using sealed by (rule sound)
  show ?thesis
    unfolding compactDecrypt_def jwe split_envelope
    by (simp add: len base64url_decode_encode TextDecoder_TextEncoder
        parse_protectedHeader [OF h] opened)
qed

lemma protected_segment:
  "JSON_stringify protectedHeader = Some h \<Longrightarrow>
   base64url_encode (TextEncoder_encode h) = ''eyJhbGciOiJkaXIiLCJlbmMiOiJBMjU2R0NNIn0''"
proof -
  have "base64url_encode (TextEncoder_encode (case JSON_stringify protectedHeader of Some h \<Rightarrow> h | None \<Rightarrow> []))
      = ''eyJhbGciOiJkaXIiLCJlbmMiOiJBMjU2R0NNIn0''"
    by code_simp
  moreover assume "JSON_stringify protectedHeader = Some h"
  ultimately show ?thesis by simp
qed

section \<open>The launch\<close>

lemma configure_initialClientOptions:
  "configureCredentialsCapabilities initialClientOptions
     = Inr (initialClientOptions
         \<lparr>initializationOptions :=
            JObject [(''credentials'', JObject [(''providesIam'', JBool True)])]\<rparr>)"
  by (simp add: configureCredentialsCapabilities_def initialClientOptions_def)

lemma launchServer_False:
  "launchServer False serverModule encryptionKey
     = Inr ([], NodeModule serverModule [''--nolazy'', ''--inspect=6012'', ''--preserve-symlinks''])"
  by (simp add: launchServer_def)

lemma launchServer_True:
  assumes "JSON_stringify (InitMessage encryptionKey) = Some msg"
  shows "launchServer True serverModule encryptionKey
     = Inr ([Spawn ''node''
               [serverModule, ''--nolazy'', ''--inspect=6012'', ''--preserve-symlinks'',
                ''--stdio'', ''--pre-init-encryption''],
             StdinWrite msg, StdinWrite [newline]],
            Spawned
              \<lparr>command = ''node'',
               args = [serverModule, ''--nolazy'', ''--inspect=6012'', ''--preserve-symlinks'',
                       ''--stdio'', ''--pre-init-encryption''],
               stdin = [msg, [newline]]\<rparr>)"
  by (simp add: launchServer_def writeEncryptionInit_def assms Let_def)

lemma registrations_quiet:
  "stdin_writes (registrations env) = [] \<and> (\<forall>e \<in> set (registrations env). \<not> is_ClientStart e)"
  by (simp add: registrations_def registerIamCredentialsProviderSupport_def)

lemma activate_eq:
  "activateDocumentsLanguageServer env fallbackPath encryptionKey
     = (case launchServer (enableEncryptionInit env)
               (case env ''LSP_SERVER'' of None \<Rightarrow> fallbackPath | Some m \<Rightarrow> m) encryptionKey of
          Inl e \<Rightarrow> Inl e
        | Inr (launched, serverOptions) \<Rightarrow>
            Inr (launched @ registrations env
                 @ [ClientStart serverOptions
                      (if enableIamProvider env
                       then initialClientOptions
                         \<lparr>initializationOptions :=
                            JObject [(''credentials'', JObject [(''providesIam'', JBool True)])]\<rparr>
                       else initialClientOptions)]))"
  by (simp add: activateDocumentsLanguageServer_def registrations_def
      configure_initialClientOptions split: sum.splits)




lemma payload_text_explicit:
  \<open>payload_text c
     = ''{"data":{"accessKeyId":'' @ QuoteJSONString (accessKeyId c)
       @ '',"secretAccessKey":'' @ QuoteJSONString (secretAccessKey c)
       @ (case sessionToken c of None \<Rightarrow> [] | Some t \<Rightarrow> '',"sessionToken":'' @ QuoteJSONString t)
       @ ''}}''\<close>
proof -
  have q: \<open>QuoteJSONString ''data'' = ''"data"''\<close>
    \<open>QuoteJSONString ''accessKeyId'' = ''"accessKeyId"''\<close>
    \<open>QuoteJSONString ''secretAccessKey'' = ''"secretAccessKey"''\<close>
    \<open>QuoteJSONString ''sessionToken'' = ''"sessionToken"''\<close>
    by (simp_all add: QuoteJSONString_def quote_char_def dquote_def backslash_def)
  show ?thesis
    by (cases "sessionToken c") (simp_all add: payload_text_def requestData_def q)
qed


section \<open>The stand-in cipher\<close>

lemma example_seal_total:
  "\<exists>ciphertext tag. example_seal key iv aad plaintext = Inr (ciphertext, tag)"
  by (simp add: example_seal_def)

lemma example_key_base64:
  "toString_base64 (map of_nat [0..<32]) = ''AAECAwQFBgcICQoLDA0ODxAREhMUFRYXGBkaGxwdHh8=''"
  by code_simp

lemma example_seal_sound:
  "example_seal key iv aad plaintext = Inr (ciphertext, tag)
   \<Longrightarrow> example_unseal key iv aad ciphertext tag = Some plaintext"
  by (auto simp: example_seal_def example_unseal_def comp_def)


lemma example_request:
  "createUpdateIamCredentialsRequest example_seal (map of_nat [1..<13]) (map of_nat [0..<32])
      \<lparr>accessKeyId = ''AKIAEXAMPLE'', secretAccessKey = ''secretvalue'', sessionToken = None\<rparr>
   = Inr \<lparr>data = ''eyJhbGciOiJkaXIiLCJlbmMiOiJBMjU2R0NNIn0..AQIDBAUGBwgJCgsM.fCNlYnViIzt8I2JkZGZ0dExmekplIzsjQkxKQkZZQk5RTUYjLSN0ZmRzZnVCZGRmdHRMZnojOyN0ZmRzZnV3Ym12ZiN-fg.AAECAwQFBgcICQoLDA0ODw''\<rparr>"
  by code_simp


section \<open>C1: which startup protocol, and the order of the handoff\<close>

text \<open>
  C1. Every activation returns a list of events that ends with the start of the language
  client, and has no other start. The client sends its first protocol frame only after it
  is started, so what stands before that event is what happened before the first frame.
  If the "encryption required" flag, derived from the two provider flags of the
  environment, is false, nothing is written to a standard input and the server options
  are the module to run over IPC. If it is true, the child is spawned, the InitMessage
  and the newline are written to its standard input, nothing else is written to it, and
  the child handed to the client already holds both chunks in its input stream, ahead of
  anything the client will write: whatever frames the client transmits, the input stream
  of the child is the InitMessage, the newline, and then the frames. A write is modelled
  as complete when \<open>stream.write\<close> returns: the chunks of a stream are delivered in the
  order they were written.
\<close>

theorem startup_handoff_ordering:
  "enableEncryptionInit env
     = (env ''ENABLE_IAM_PROVIDER'' = Some ''true'' \<or> env ''ENABLE_TOKEN_PROVIDER'' = Some ''true'')
 \<and> (\<exists>events serverOptions clientOptions.
      activateDocumentsLanguageServer env fallbackPath encryptionKey
        = Inr (events @ [ClientStart serverOptions clientOptions])
    \<and> (\<forall>e \<in> set events. \<not> is_ClientStart e)
    \<and> (\<not> enableEncryptionInit env
          \<longrightarrow> stdin_writes events = [] \<and> (\<exists>m argv. serverOptions = NodeModule m argv))
    \<and> (enableEncryptionInit env
          \<longrightarrow> (\<exists>msg argv more.
                JSON_stringify (InitMessage encryptionKey) = Some msg
              \<and> events = Spawn ''node'' argv # StdinWrite msg # StdinWrite [newline] # more
              \<and> stdin_writes more = []
              \<and> serverOptions
                  = Spawned \<lparr>command = ''node'', args = argv, stdin = [msg, [newline]]\<rparr>
              \<and> (\<forall>frames.
                    transmit serverOptions frames
                    = Spawned \<lparr>command = ''node'', args = argv,
                               stdin = msg # [newline] # frames\<rparr>))))"
proof (rule conjI)
  show "enableEncryptionInit env
     = (env ''ENABLE_IAM_PROVIDER'' = Some ''true'' \<or> env ''ENABLE_TOKEN_PROVIDER'' = Some ''true'')"
    by (simp add: enableEncryptionInit_def enableIamProvider_def enableBearerTokenProvider_def)
next
  show "\<exists>events serverOptions clientOptions.
      activateDocumentsLanguageServer env fallbackPath encryptionKey
        = Inr (events @ [ClientStart serverOptions clientOptions])
    \<and> (\<forall>e \<in> set events. \<not> is_ClientStart e)
    \<and> (\<not> enableEncryptionInit env
          \<longrightarrow> stdin_writes events = [] \<and> (\<exists>m argv. serverOptions = NodeModule m argv))
    \<and> (enableEncryptionInit env
          \<longrightarrow> (\<exists>msg argv more.
                JSON_stringify (InitMessage encryptionKey) = Some msg
              \<and> events = Spawn ''node'' argv # StdinWrite msg # StdinWrite [newline] # more
              \<and> stdin_writes more = []
              \<and> serverOptions
                  = Spawned \<lparr>command = ''node'', args = argv, stdin = [msg, [newline]]\<rparr>
              \<and> (\<forall>frames.
                    transmit serverOptions frames
                    = Spawned \<lparr>command = ''node'', args = argv,
                               stdin = msg # [newline] # frames\<rparr>)))"
  proof (cases "enableEncryptionInit env")
    case False
    show ?thesis
      unfolding activate_eq
      using False registrations_quiet [of env] by (simp add: launchServer_False)
  next
    case True
    obtain msg where msg: "JSON_stringify (InitMessage encryptionKey) = Some msg"
      by (simp add: InitMessage_def)
    show ?thesis
      unfolding activate_eq
      using True registrations_quiet [of env] by (simp add: launchServer_True [OF msg] msg)
  qed
qed

theorem startup_handoff_ordering_witness:
  \<open>enableEncryptionInit [''ENABLE_TOKEN_PROVIDER'' \<mapsto> ''true'']
   \<and> activateDocumentsLanguageServer [''ENABLE_TOKEN_PROVIDER'' \<mapsto> ''true''] ''server.js''
        (map of_nat [0..<32])
     = Inr [Spawn ''node''
              [''server.js'', ''--nolazy'', ''--inspect=6012'', ''--preserve-symlinks'',
               ''--stdio'', ''--pre-init-encryption''],
            StdinWrite ''{"version":"1.0","mode":"JWT","key":"AAECAwQFBgcICQoLDA0ODxAREhMUFRYXGBkaGxwdHh8="}'',
            StdinWrite [newline],
            ClientStart
              (Spawned
                 \<lparr>command = ''node'',
                  args = [''server.js'', ''--nolazy'', ''--inspect=6012'', ''--preserve-symlinks'',
                          ''--stdio'', ''--pre-init-encryption''],
                  stdin = [''{"version":"1.0","mode":"JWT","key":"AAECAwQFBgcICQoLDA0ODxAREhMUFRYXGBkaGxwdHh8="}'',
                           [newline]]\<rparr>)
              initialClientOptions]
   \<and> \<not> enableEncryptionInit Map.empty
   \<and> activateDocumentsLanguageServer Map.empty ''server.js'' (map of_nat [0..<32])
     = Inr [ClientStart
              (NodeModule ''server.js'' [''--nolazy'', ''--inspect=6012'', ''--preserve-symlinks''])
              initialClientOptions]\<close>
proof -
  have b64: "toString_base64 (map of_nat [0..<32])
      = ''AAECAwQFBgcICQoLDA0ODxAREhMUFRYXGBkaGxwdHh8=''"
    by code_simp
  have on: "enableEncryptionInit [''ENABLE_TOKEN_PROVIDER'' \<mapsto> ''true'']"
    and iam: "\<not> enableIamProvider [''ENABLE_TOKEN_PROVIDER'' \<mapsto> ''true'']"
    and inl: "\<not> enableInlineCompletion [''ENABLE_TOKEN_PROVIDER'' \<mapsto> ''true'']"
    by (simp_all add: enableEncryptionInit_def enableBearerTokenProvider_def
        enableIamProvider_def enableInlineCompletion_def)
  have off: "\<not> enableEncryptionInit Map.empty" "\<not> enableIamProvider Map.empty"
    "\<not> enableInlineCompletion Map.empty"
    by (simp_all add: enableEncryptionInit_def enableBearerTokenProvider_def
        enableIamProvider_def enableInlineCompletion_def)
  from startup_handoff_ordering
    [of "[''ENABLE_TOKEN_PROVIDER'' \<mapsto> ''true'']" "''server.js''" "map of_nat [0..<32]"] on
  obtain events serverOptions clientOptions msg argv more where
    a: "activateDocumentsLanguageServer [''ENABLE_TOKEN_PROVIDER'' \<mapsto> ''true''] ''server.js''
          (map of_nat [0..<32]) = Inr (events @ [ClientStart serverOptions clientOptions])"
    and m: "JSON_stringify (InitMessage (map of_nat [0..<32])) = Some msg"
    and e: "events = Spawn ''node'' argv # StdinWrite msg # StdinWrite [newline] # more"
    by auto
  have msg: \<open>msg = ''{"version":"1.0","mode":"JWT","key":"AAECAwQFBgcICQoLDA0ODxAREhMUFRYXGBkaGxwdHh8="}''\<close>
    using m unfolding JSON_stringify_InitMessage b64 by simp
  have a': "activateDocumentsLanguageServer [''ENABLE_TOKEN_PROVIDER'' \<mapsto> ''true''] ''server.js''
          (map of_nat [0..<32])
     = Inr [Spawn ''node''
              [''server.js'', ''--nolazy'', ''--inspect=6012'', ''--preserve-symlinks'',
               ''--stdio'', ''--pre-init-encryption''],
            StdinWrite msg, StdinWrite [newline],
            ClientStart
              (Spawned
                 \<lparr>command = ''node'',
                  args = [''server.js'', ''--nolazy'', ''--inspect=6012'', ''--preserve-symlinks'',
                          ''--stdio'', ''--pre-init-encryption''],
                  stdin = [msg, [newline]]\<rparr>)
              initialClientOptions]"
    using a e unfolding activate_eq
    by (simp add: on iam inl launchServer_True [OF m] registrations_def)
  have b: "activateDocumentsLanguageServer Map.empty ''server.js'' (map of_nat [0..<32])
     = Inr [ClientStart
              (NodeModule ''server.js'' [''--nolazy'', ''--inspect=6012'', ''--preserve-symlinks''])
              initialClientOptions]"
    unfolding activate_eq by (simp add: off launchServer_False registrations_def)
  from on a' b off(1) show ?thesis unfolding msg by blast
qed

section \<open>C2: the round trip of the encryption\<close>

text \<open>
  C2. For every credentials payload and every 32-byte key, the encoder returns an
  envelope, and decrypting that envelope with the same key gives exactly the payload. The
  cipher is a parameter: it is assumed to succeed under this key and initialization
  vector, and its inverse to open under the same key, initialization vector and
  additional data what it sealed. The decryption is that of the receiving side, modelled
  from the spec.
\<close>

theorem encryption_round_trip:
  assumes "length key = 32"
    and "\<And>aad plaintext. \<exists>ciphertext tag. seal key iv aad plaintext = Inr (ciphertext, tag)"
    and "\<And>aad plaintext ciphertext tag.
      seal key iv aad plaintext = Inr (ciphertext, tag)
      \<Longrightarrow> unseal key iv aad ciphertext tag = Some plaintext"
  shows "\<exists>request.
      createUpdateIamCredentialsRequest seal iv key P = Inr request
    \<and> decrypt unseal key (data request) = Some P"
proof -
  from createUpdateIamCredentialsRequest_total
    [where seal = seal and key = key and iv = iv, OF assms(1) assms(2)]
  obtain request where request: "createUpdateIamCredentialsRequest seal iv key P = Inr request"
    by blast
  then have enc:
    "CompactEncrypt seal iv (TextEncoder_encode (payload_text P)) protectedHeader key
       = Inr (data request)"
    by (auto simp: createUpdateIamCredentialsRequest_def Let_def split: sum.splits)
  have "compactDecrypt unseal key (data request) = Some (TextEncoder_encode (payload_text P))"
    using assms(3) enc by (rule compactDecrypt_CompactEncrypt)
  then have "decrypt unseal key (data request) = Some P"
    by (simp add: decrypt_def TextDecoder_TextEncoder parse_payload_payload_text)
  with request show ?thesis by blast
qed

theorem encryption_round_trip_witness:
  "length (map of_nat [0..<32] :: byte list) = 32
   \<and> createUpdateIamCredentialsRequest example_seal (map of_nat [1..<13]) (map of_nat [0..<32])
        \<lparr>accessKeyId = ''AKIAEXAMPLE'', secretAccessKey = ''secretvalue'', sessionToken = None\<rparr>
      = Inr \<lparr>data = ''eyJhbGciOiJkaXIiLCJlbmMiOiJBMjU2R0NNIn0..AQIDBAUGBwgJCgsM.fCNlYnViIzt8I2JkZGZ0dExmekplIzsjQkxKQkZZQk5RTUYjLSN0ZmRzZnVCZGRmdHRMZnojOyN0ZmRzZnV3Ym12ZiN-fg.AAECAwQFBgcICQoLDA0ODw''\<rparr>
   \<and> decrypt example_unseal (map of_nat [0..<32])
        ''eyJhbGciOiJkaXIiLCJlbmMiOiJBMjU2R0NNIn0..AQIDBAUGBwgJCgsM.fCNlYnViIzt8I2JkZGZ0dExmekplIzsjQkxKQkZZQk5RTUYjLSN0ZmRzZnVCZGRmdHRMZnojOyN0ZmRzZnV3Ym12ZiN-fg.AAECAwQFBgcICQoLDA0ODw''
      = Some \<lparr>accessKeyId = ''AKIAEXAMPLE'', secretAccessKey = ''secretvalue'', sessionToken = None\<rparr>"
proof -
  have len: "length (map of_nat [0..<32] :: byte list) = 32"
    by simp
  from encryption_round_trip
    [where key = "map of_nat [0..<32]" and seal = example_seal and unseal = example_unseal
       and iv = "map of_nat [1..<13]"
       and P = "\<lparr>accessKeyId = ''AKIAEXAMPLE'', secretAccessKey = ''secretvalue'',
                 sessionToken = None\<rparr>",
     OF len example_seal_total example_seal_sound]
    len example_request
  show ?thesis by auto
qed


section \<open>C3: a wrong key\<close>

text \<open>
  C3 says that decrypting with any other key fails. Nothing in the client decides this: it
  is the authentication of AES-256-GCM inside the library, which holds with overwhelming
  probability over the keys and not for every pair of them, and which the model takes as
  a parameter. No theorem is stated for it.
\<close>


section \<open>C4: the select-profile command sends nothing when it fails\<close>

text \<open>
  C4. When the credential source rejects, or when it resolves and the encoding of the
  payload fails, the select-profile command ends with that error and leaves the language
  client as it was: no notification is sent and no line is logged. If the command has
  sent anything, then the source resolved, the encoding succeeded, the command succeeded,
  and what it sent is the one update notification that carries the encoded request.
\<close>

theorem select_profile_atomicity:
  "(\<forall>e. fromIni profileName = Inl e
        \<longrightarrow> createSelectProfileCommand fromIni seal iv key profileName languageClient
            = (Inl e, languageClient))
 \<and> (\<forall>awsCredentials e.
        fromIni profileName = Inr awsCredentials
        \<and> createUpdateIamCredentialsRequest seal iv key awsCredentials = Inl e
        \<longrightarrow> createSelectProfileCommand fromIni seal iv key profileName languageClient
            = (Inl e, languageClient))
 \<and> (sent (snd (createSelectProfileCommand fromIni seal iv key profileName languageClient))
        \<noteq> sent languageClient
      \<longrightarrow> (\<exists>awsCredentials request.
            fromIni profileName = Inr awsCredentials
          \<and> createUpdateIamCredentialsRequest seal iv key awsCredentials = Inr request
          \<and> fst (createSelectProfileCommand fromIni seal iv key profileName languageClient)
              = Inr ()
          \<and> sent (snd (createSelectProfileCommand fromIni seal iv key profileName languageClient))
              = sent languageClient
                @ [\<lparr>methodName = iamCredentialsUpdate, params = Some request\<rparr>]))"
  by (auto simp: createSelectProfileCommand_def info_def sendIamCredentialsUpdate_def
      sendNotification_def split: sum.splits)

theorem select_profile_atomicity_witness:
  "createSelectProfileCommand
      (\<lambda>profile. Inl CredentialsProviderError :: error + UpdateIamCredentialsRequestData)
      example_seal (map of_nat [1..<13]) (map of_nat [0..<32]) (Some ''missing'')
      \<lparr>sent = [], messages = []\<rparr>
     = (Inl CredentialsProviderError, \<lparr>sent = [], messages = []\<rparr>)
   \<and> createSelectProfileCommand
      (\<lambda>profile. Inr \<lparr>accessKeyId = ''AKIAEXAMPLE'', secretAccessKey = ''secretvalue'',
                        sessionToken = None\<rparr>)
      (\<lambda>key iv aad plaintext. Inl CipherError) (map of_nat [1..<13]) (map of_nat [0..<32])
      (Some ''default'') \<lparr>sent = [], messages = []\<rparr>
     = (Inl CipherError, \<lparr>sent = [], messages = []\<rparr>)
   \<and> sent (snd (createSelectProfileCommand
        (\<lambda>profile. Inr \<lparr>accessKeyId = ''AKIAEXAMPLE'', secretAccessKey = ''secretvalue'',
                          sessionToken = None\<rparr>)
        example_seal (map of_nat [1..<13]) (map of_nat [0..<32]) (Some ''default'')
        \<lparr>sent = [], messages = []\<rparr>))
     = [\<lparr>methodName = iamCredentialsUpdate,
         params = Some \<lparr>data = ''eyJhbGciOiJkaXIiLCJlbmMiOiJBMjU2R0NNIn0..AQIDBAUGBwgJCgsM.fCNlYnViIzt8I2JkZGZ0dExmekplIzsjQkxKQkZZQk5RTUYjLSN0ZmRzZnVCZGRmdHRMZnojOyN0ZmRzZnV3Ym12ZiN-fg.AAECAwQFBgcICQoLDA0ODw''\<rparr>\<rparr>]"
proof -
  let ?P = "\<lparr>accessKeyId = ''AKIAEXAMPLE'', secretAccessKey = ''secretvalue'', sessionToken = None\<rparr>"
  have failing: "createUpdateIamCredentialsRequest (\<lambda>key iv aad plaintext. Inl CipherError)
      (map of_nat [1..<13]) (map of_nat [0..<32]) ?P = Inl CipherError"
    by (simp add: createUpdateIamCredentialsRequest_def CompactEncrypt_def protectedHeader_def)
  from select_profile_atomicity
    [of "\<lambda>profile. Inl CredentialsProviderError :: error + UpdateIamCredentialsRequestData"
      "Some ''missing''" example_seal "map of_nat [1..<13]" "map of_nat [0..<32]"
      "\<lparr>sent = [], messages = []\<rparr>"]
  have a: "createSelectProfileCommand
      (\<lambda>profile. Inl CredentialsProviderError :: error + UpdateIamCredentialsRequestData)
      example_seal (map of_nat [1..<13]) (map of_nat [0..<32]) (Some ''missing'')
      \<lparr>sent = [], messages = []\<rparr>
     = (Inl CredentialsProviderError, \<lparr>sent = [], messages = []\<rparr>)"
    by blast
  from select_profile_atomicity
    [of "\<lambda>profile. Inr ?P" "Some ''default''" "\<lambda>key iv aad plaintext. Inl CipherError"
      "map of_nat [1..<13]" "map of_nat [0..<32]" "\<lparr>sent = [], messages = []\<rparr>"] failing
  have b: "createSelectProfileCommand (\<lambda>profile. Inr ?P)
      (\<lambda>key iv aad plaintext. Inl CipherError) (map of_nat [1..<13]) (map of_nat [0..<32])
      (Some ''default'') \<lparr>sent = [], messages = []\<rparr>
     = (Inl CipherError, \<lparr>sent = [], messages = []\<rparr>)"
    by blast
  have "sent (snd (createSelectProfileCommand (\<lambda>profile. Inr ?P) example_seal
      (map of_nat [1..<13]) (map of_nat [0..<32]) (Some ''default'')
      \<lparr>sent = [], messages = []\<rparr>)) \<noteq> sent \<lparr>sent = [], messages = []\<rparr>"
    by (simp add: createSelectProfileCommand_def example_request [unfolded One_nat_def]
        info_def sendIamCredentialsUpdate_def sendNotification_def)
  with select_profile_atomicity
    [of "\<lambda>profile. Inr ?P" "Some ''default''" example_seal
      "map of_nat [1..<13]" "map of_nat [0..<32]" "\<lparr>sent = [], messages = []\<rparr>"]
  obtain awsCredentials request where
    "(\<lambda>profile. Inr ?P) (Some ''default'') = Inr awsCredentials"
    and "createUpdateIamCredentialsRequest example_seal (map of_nat [1..<13])
      (map of_nat [0..<32]) awsCredentials = Inr request"
    and "sent (snd (createSelectProfileCommand (\<lambda>profile. Inr ?P) example_seal
      (map of_nat [1..<13]) (map of_nat [0..<32]) (Some ''default'')
      \<lparr>sent = [], messages = []\<rparr>))
      = sent \<lparr>sent = [], messages = []\<rparr>
        @ [\<lparr>methodName = iamCredentialsUpdate, params = Some request\<rparr>]"
    by blast
  then have c: "sent (snd (createSelectProfileCommand (\<lambda>profile. Inr ?P) example_seal
      (map of_nat [1..<13]) (map of_nat [0..<32]) (Some ''default'')
      \<lparr>sent = [], messages = []\<rparr>))
     = [\<lparr>methodName = iamCredentialsUpdate,
         params = Some \<lparr>data = ''eyJhbGciOiJkaXIiLCJlbmMiOiJBMjU2R0NNIn0..AQIDBAUGBwgJCgsM.fCNlYnViIzt8I2JkZGZ0dExmekplIzsjQkxKQkZZQk5RTUYjLSN0ZmRzZnVCZGRmdHRMZnojOyN0ZmRzZnV3Ym12ZiN-fg.AAECAwQFBgcICQoLDA0ODw''\<rparr>\<rparr>]"
    using example_request by simp
  from a b c show ?thesis by (intro conjI)
qed

section \<open>C5: the InitMessage on the wire\<close>

text \<open>
  C5. The InitMessage that \<open>writeEncryptionInit\<close> writes is the JSON object with the
  properties \<open>version\<close> = \<open>1.0\<close>, \<open>mode\<close> = \<open>JWT\<close> and \<open>key\<close> = the Base64 text of
  the encryption key, in this order and without white space, followed by a newline chunk;
  a launch with the handoff writes these two chunks and nothing else to the child's
  standard input. For a 32-byte key the Base64 text has 44 characters, and decoding the
  \<open>key\<close> property of the written line gives the key back.
\<close>

theorem InitMessage_wire_format:
  assumes "length encryptionKey = 32"
  shows \<open>let msg = ''{"version":"1.0","mode":"JWT","key":"'' @ toString_base64 encryptionKey @ ''"}'' in
      writeEncryptionInit encryptionKey stream = Inr (stream @ [msg, [newline]])
    \<and> (\<exists>launched options.
          launchServer True serverModule encryptionKey = Inr (launched, options)
        \<and> stdin_writes launched = [msg, [newline]])
    \<and> length (toString_base64 encryptionKey) = 44
    \<and> base64_decode (toString_base64 encryptionKey) = Some encryptionKey
    \<and> read_init_key (msg @ [newline]) = Some encryptionKey\<close>
proof -
  define msg where \<open>msg = ''{"version":"1.0","mode":"JWT","key":"'' @ toString_base64 encryptionKey @ ''"}''\<close>
  have t: "JSON_stringify (InitMessage encryptionKey) = Some msg"
    unfolding msg_def by (rule JSON_stringify_InitMessage)
  have w: "writeEncryptionInit encryptionKey stream = Inr (stream @ [msg, [newline]])" for stream
    by (simp add: writeEncryptionInit_def t)
  have l: "\<exists>launched options.
          launchServer True serverModule encryptionKey = Inr (launched, options)
        \<and> stdin_writes launched = [msg, [newline]]"
    by (simp add: launchServer_def w Let_def)
  have r: "read_init_key (msg @ [newline]) = Some encryptionKey"
    using t by (rule read_init_key_InitMessage)
  show ?thesis
    unfolding Let_def msg_def [symmetric]
    using w l r length_toString_base64_32 [OF assms] base64_decode_toString by blast
qed

theorem InitMessage_wire_format_witness:
  \<open>length (map of_nat [0..<32] :: byte list) = 32
   \<and> writeEncryptionInit (map of_nat [0..<32]) []
       = Inr [''{"version":"1.0","mode":"JWT","key":"AAECAwQFBgcICQoLDA0ODxAREhMUFRYXGBkaGxwdHh8="}'',
              [newline]]
   \<and> read_init_key
         (''{"version":"1.0","mode":"JWT","key":"AAECAwQFBgcICQoLDA0ODxAREhMUFRYXGBkaGxwdHh8="}''
            @ [newline])
       = Some (map of_nat [0..<32])\<close>
proof -
  have len: "length (map of_nat [0..<32] :: byte list) = 32"
    by simp
  show ?thesis
    using InitMessage_wire_format [OF len, of "[]" "''server.js''"]
    unfolding Let_def example_key_base64 by simp
qed


section \<open>C6: who reads the key\<close>





section \<open>C7: the shape of the update notification\<close>

text \<open>
  C7. When the credential source resolves a payload, and the cipher succeeds under the
  32-byte key, the encoder returns an envelope of exactly five segments joined by dots,
  which are what splitting it at the dots gives back: the Base64url text of the header
  \<open>{"alg":"dir","enc":"A256GCM"}\<close>, an empty encrypted-key segment, the Base64url text
  of the initialization vector, and the Base64url texts of the ciphertext and the tag.
  The ciphertext and the tag are what the cipher returns, under the key and the
  initialization vector, with the encoded header as additional data, on the UTF-8 bytes of
  the serialized payload \<open>{"data":{...}}\<close> of the resolved credentials. The select-profile
  command then succeeds and sends one notification, with the method
  \<open>$/aws/credentials/iam/update\<close> and the parameters \<open>{ data: envelope }\<close>.
\<close>

theorem update_notification_shape:
  assumes "fromIni profileName = Inr awsCredentials"
    and "length key = 32"
    and "\<And>aad plaintext. \<exists>ciphertext tag. seal key iv aad plaintext = Inr (ciphertext, tag)"
  shows \<open>\<exists>envelope ciphertext tag.
      seal key iv (TextEncoder_encode ''eyJhbGciOiJkaXIiLCJlbmMiOiJBMjU2R0NNIn0'')
        (TextEncoder_encode
           (''{"data":{"accessKeyId":'' @ QuoteJSONString (accessKeyId awsCredentials)
            @ '',"secretAccessKey":'' @ QuoteJSONString (secretAccessKey awsCredentials)
            @ (case sessionToken awsCredentials of
                 None \<Rightarrow> []
               | Some t \<Rightarrow> '',"sessionToken":'' @ QuoteJSONString t)
            @ ''}}''))
        = Inr (ciphertext, tag)
    \<and> envelope
        = join_with (CHR ''.'')
            [''eyJhbGciOiJkaXIiLCJlbmMiOiJBMjU2R0NNIn0'', [], base64url_encode iv,
             base64url_encode ciphertext, base64url_encode tag]
    \<and> createUpdateIamCredentialsRequest seal iv key awsCredentials = Inr \<lparr>data = envelope\<rparr>
    \<and> split_on (CHR ''.'') envelope
        = [''eyJhbGciOiJkaXIiLCJlbmMiOiJBMjU2R0NNIn0'', [], base64url_encode iv,
           base64url_encode ciphertext, base64url_encode tag]
    \<and> length (split_on (CHR ''.'') envelope) = 5
    \<and> fst (createSelectProfileCommand fromIni seal iv key profileName languageClient) = Inr ()
    \<and> sent (snd (createSelectProfileCommand fromIni seal iv key profileName languageClient))
        = sent languageClient
          @ [\<lparr>methodName = ''$/aws/credentials/iam/update'',
               params = Some \<lparr>data = envelope\<rparr>\<rparr>]\<close>
proof -
  from createUpdateIamCredentialsRequest_total
    [where seal = seal and key = key and iv = iv, OF assms(2) assms(3)]
  obtain request where
    request: "createUpdateIamCredentialsRequest seal iv key awsCredentials = Inr request"
    by blast
  then have enc:
    "CompactEncrypt seal iv (TextEncoder_encode (payload_text awsCredentials)) protectedHeader key
       = Inr (data request)"
    by (auto simp: createUpdateIamCredentialsRequest_def Let_def split: sum.splits)
  from CompactEncrypt_Inr [OF enc] obtain h ciphertext tag where
    h: "JSON_stringify protectedHeader = Some h"
    and sealed: "seal key iv (TextEncoder_encode (base64url_encode (TextEncoder_encode h)))
        (TextEncoder_encode (payload_text awsCredentials)) = Inr (ciphertext, tag)"
    and jwe: "data request = join_with (CHR ''.'')
         [base64url_encode (TextEncoder_encode h), [], base64url_encode iv,
          base64url_encode ciphertext, base64url_encode tag]"
    by blast
  note seg = protected_segment [OF h]
  have c: \<open>seal key iv (TextEncoder_encode ''eyJhbGciOiJkaXIiLCJlbmMiOiJBMjU2R0NNIn0'')
        (TextEncoder_encode
           (''{"data":{"accessKeyId":'' @ QuoteJSONString (accessKeyId awsCredentials)
            @ '',"secretAccessKey":'' @ QuoteJSONString (secretAccessKey awsCredentials)
            @ (case sessionToken awsCredentials of
                 None \<Rightarrow> []
               | Some t \<Rightarrow> '',"sessionToken":'' @ QuoteJSONString t)
            @ ''}}''))
        = Inr (ciphertext, tag)\<close>
    using sealed unfolding seg payload_text_explicit .
  have j: "data request
      = join_with (CHR ''.'')
          [''eyJhbGciOiJkaXIiLCJlbmMiOiJBMjU2R0NNIn0'', [], base64url_encode iv,
           base64url_encode ciphertext, base64url_encode tag]"
    using jwe unfolding seg .
  have "split_on (CHR ''.'') (data request)
      = [base64url_encode (TextEncoder_encode h), [], base64url_encode iv,
         base64url_encode ciphertext, base64url_encode tag]"
    unfolding jwe by (rule split_envelope)
  then have segs: "split_on (CHR ''.'') (data request)
      = [''eyJhbGciOiJkaXIiLCJlbmMiOiJBMjU2R0NNIn0'', [], base64url_encode iv,
         base64url_encode ciphertext, base64url_encode tag]"
    by (simp only: seg)
  have r: "createUpdateIamCredentialsRequest seal iv key awsCredentials
      = Inr \<lparr>data = data request\<rparr>"
    using request by simp
  have cmd: "createSelectProfileCommand fromIni seal iv key profileName languageClient
      = (Inr (),
         info (''Client: The language server is now using credentials profile: ''
                 @ (case profileName of None \<Rightarrow> ''undefined'' | Some n \<Rightarrow> n))
           (sendIamCredentialsUpdate request languageClient))"
    by (simp add: createSelectProfileCommand_def assms(1) request)
  have l: "length (split_on (CHR ''.'') (data request)) = 5"
    unfolding segs by simp
  have f: "fst (createSelectProfileCommand fromIni seal iv key profileName languageClient) = Inr ()"
    unfolding cmd by simp
  have s: "sent (snd (createSelectProfileCommand fromIni seal iv key profileName languageClient))
      = sent languageClient
        @ [\<lparr>methodName = ''$/aws/credentials/iam/update'', params = Some \<lparr>data = data request\<rparr>\<rparr>]"
    unfolding cmd
    by (simp add: info_def sendIamCredentialsUpdate_def sendNotification_def
        iamCredentialsUpdate_def)
  from c j r segs l f s show ?thesis by blast
qed

theorem update_notification_shape_witness:
  "length (split_on (CHR ''.'')
      ''eyJhbGciOiJkaXIiLCJlbmMiOiJBMjU2R0NNIn0..AQIDBAUGBwgJCgsM.fCNlYnViIzt8I2JkZGZ0dExmekplIzsjQkxKQkZZQk5RTUYjLSN0ZmRzZnVCZGRmdHRMZnojOyN0ZmRzZnV3Ym12ZiN-fg.AAECAwQFBgcICQoLDA0ODw'') = 5
   \<and> sent (snd (createSelectProfileCommand
        (\<lambda>profile. Inr \<lparr>accessKeyId = ''AKIAEXAMPLE'', secretAccessKey = ''secretvalue'',
                          sessionToken = None\<rparr>)
        example_seal (map of_nat [1..<13]) (map of_nat [0..<32]) (Some ''default'')
        \<lparr>sent = [], messages = []\<rparr>))
     = [\<lparr>methodName = ''$/aws/credentials/iam/update'',
         params = Some \<lparr>data = ''eyJhbGciOiJkaXIiLCJlbmMiOiJBMjU2R0NNIn0..AQIDBAUGBwgJCgsM.fCNlYnViIzt8I2JkZGZ0dExmekplIzsjQkxKQkZZQk5RTUYjLSN0ZmRzZnVCZGRmdHRMZnojOyN0ZmRzZnV3Ym12ZiN-fg.AAECAwQFBgcICQoLDA0ODw''\<rparr>\<rparr>]"
proof -
  let ?P = "\<lparr>accessKeyId = ''AKIAEXAMPLE'', secretAccessKey = ''secretvalue'', sessionToken = None\<rparr>"
  have len: "length (map of_nat [0..<32] :: byte list) = 32"
    by simp
  from update_notification_shape
    [where fromIni = "\<lambda>profile. Inr ?P" and profileName = "Some ''default''"
       and awsCredentials = ?P and languageClient = "\<lparr>sent = [], messages = []\<rparr>"
       and seal = example_seal and iv = "map of_nat [1..<13]"
       and key = "map of_nat [0..<32]",
     OF _ len example_seal_total]
    example_request
  show ?thesis by auto
qed


section \<open>C8: the clear-profile command\<close>

text \<open>
  C8. Whatever the language client has sent before, the clear-profile command sends
  exactly one more notification, with the method \<open>$/aws/credentials/iam/delete\<close> and
  without parameters, and does nothing else.
\<close>

theorem clear_profile_unconditional:
  "sent (createClearProfileCommand languageClient)
     = sent languageClient
       @ [\<lparr>methodName = ''$/aws/credentials/iam/delete'', params = None\<rparr>]
   \<and> messages (createClearProfileCommand languageClient) = messages languageClient"
  by (simp add: createClearProfileCommand_def sendNotification_def iamCredentialsDelete_def)

section \<open>C9: what the capability configuration changes\<close>

text \<open>
  C9 says that, for every value of the client options, the initialization options object
  is created only if it was absent, and that \<open>credentials\<close> is set. The test in the code
  is one of truthiness: the value \<open>false\<close> is present and is replaced by a new object all
  the same, and on a non-empty string nothing can be set.
\<close>

theorem configure_not_only_absent_counterexample:
  "configureCredentialsCapabilities
      \<lparr>documentSelector = [], initializationOptions = JBool False, synchronize = []\<rparr>
     = Inr \<lparr>documentSelector = [],
            initializationOptions = JObject [(''credentials'', JObject [(''providesIam'', JBool True)])],
            synchronize = []\<rparr>
   \<and> configureCredentialsCapabilities
      \<lparr>documentSelector = [], initializationOptions = JString ''x'', synchronize = []\<rparr>
     = Inl TypeError"
  by (simp add: configureCredentialsCapabilities_def)

text \<open>
  C9, in the form that holds. For every value of the client options whose initialization options are
  an object or are falsy (\<open>undefined\<close>, \<open>null\<close>, \<open>false\<close>, the empty string),
  \<open>configureCredentialsCapabilities\<close> returns the same client options with only the
  initialization options changed: they are an object whose \<open>credentials\<close> is exactly
  \<open>{ providesIam: true }\<close>; when they were an object, it is that object with this one
  property set and every other property as before; when they were falsy, it is a new
  object with this property alone.
\<close>

theorem configure_frame:
  assumes "(\<exists>ps. initializationOptions clientOptions = JObject ps)
           \<or> \<not> truthy (initializationOptions clientOptions)"
  shows "\<exists>ps'.
      configureCredentialsCapabilities clientOptions
        = Inr (clientOptions\<lparr>initializationOptions := JObject ps'\<rparr>)
    \<and> map_of ps' ''credentials'' = Some (JObject [(''providesIam'', JBool True)])
    \<and> (\<forall>ps. initializationOptions clientOptions = JObject ps
          \<longrightarrow> ps' = AList.update ''credentials'' (JObject [(''providesIam'', JBool True)]) ps
            \<and> (\<forall>name. name \<noteq> ''credentials'' \<longrightarrow> map_of ps' name = map_of ps name))
    \<and> (\<not> truthy (initializationOptions clientOptions)
          \<longrightarrow> ps' = [(''credentials'', JObject [(''providesIam'', JBool True)])])"
proof (cases "initializationOptions clientOptions")
  case (JObject ps)
  then show ?thesis
    by (simp add: configureCredentialsCapabilities_def update_conv')
next
  case JUndefined
  then show ?thesis by (simp add: configureCredentialsCapabilities_def)
next
  case JNull
  then show ?thesis by (simp add: configureCredentialsCapabilities_def)
next
  case (JBool b)
  with assms show ?thesis by (simp add: configureCredentialsCapabilities_def)
next
  case (JString s)
  with assms show ?thesis by (simp add: configureCredentialsCapabilities_def)
qed

theorem configure_frame_witness:
  "configureCredentialsCapabilities
      \<lparr>documentSelector = [(''file'', ''yaml'')],
       initializationOptions = JObject [(''logLevel'', JString ''debug'')],
       synchronize = ''**/*.yaml''\<rparr>
     = Inr \<lparr>documentSelector = [(''file'', ''yaml'')],
            initializationOptions =
              JObject [(''logLevel'', JString ''debug''),
                       (''credentials'', JObject [(''providesIam'', JBool True)])],
            synchronize = ''**/*.yaml''\<rparr>
   \<and> configureCredentialsCapabilities
      \<lparr>documentSelector = [], initializationOptions = JUndefined, synchronize = []\<rparr>
     = Inr \<lparr>documentSelector = [],
            initializationOptions = JObject [(''credentials'', JObject [(''providesIam'', JBool True)])],
            synchronize = []\<rparr>"
  using configure_frame
    [of "\<lparr>documentSelector = [(''file'', ''yaml'')],
          initializationOptions = JObject [(''logLevel'', JString ''debug'')],
          synchronize = ''**/*.yaml''\<rparr>"]
    configure_frame
    [of "\<lparr>documentSelector = [], initializationOptions = JUndefined, synchronize = []\<rparr>"]
  by auto

section \<open>C10: the optional session token\<close>

text \<open>
  C10. The text that \<open>createUpdateIamCredentialsRequest\<close> encodes and encrypts is the
  serialization of \<open>{ data: requestData }\<close>. Without a session token it has the
  properties \<open>accessKeyId\<close> and \<open>secretAccessKey\<close> under \<open>data\<close> and no
  \<open>sessionToken\<close> property; read back, it has exactly these two. With a session token it
  has the third property \<open>sessionToken\<close> as well, and read back the token is the string
  that was given.
\<close>

theorem sessionToken_optional:
  \<open>payload_text \<lparr>accessKeyId = a, secretAccessKey = s, sessionToken = None\<rparr>
      = ''{"data":{"accessKeyId":'' @ QuoteJSONString a
        @ '',"secretAccessKey":'' @ QuoteJSONString s @ ''}}''
   \<and> Option.bind
        (strip_prefix data_prefix
           (payload_text \<lparr>accessKeyId = a, secretAccessKey = s, sessionToken = None\<rparr>))
        parse_flat_object
      = Some ([(''accessKeyId'', a), (''secretAccessKey'', s)], ''}'')
   \<and> payload_text \<lparr>accessKeyId = a, secretAccessKey = s, sessionToken = Some t\<rparr>
      = ''{"data":{"accessKeyId":'' @ QuoteJSONString a
        @ '',"secretAccessKey":'' @ QuoteJSONString s
        @ '',"sessionToken":'' @ QuoteJSONString t @ ''}}''
   \<and> Option.bind
        (strip_prefix data_prefix
           (payload_text \<lparr>accessKeyId = a, secretAccessKey = s, sessionToken = Some t\<rparr>))
        parse_flat_object
      = Some ([(''accessKeyId'', a), (''secretAccessKey'', s), (''sessionToken'', t)], ''}'')
   \<and> createUpdateIamCredentialsRequest seal iv key c
      = (case CompactEncrypt seal iv (TextEncoder_encode (payload_text c)) protectedHeader key of
           Inl e \<Rightarrow> Inl e
         | Inr jwt \<Rightarrow> Inr \<lparr>data = jwt\<rparr>)\<close>
proof -
  let ?n = "\<lparr>accessKeyId = a, secretAccessKey = s, sessionToken = None\<rparr>"
  let ?t = "\<lparr>accessKeyId = a, secretAccessKey = s, sessionToken = Some t\<rparr>"
  have q: \<open>QuoteJSONString ''data'' = ''"data"''\<close>
    \<open>QuoteJSONString ''accessKeyId'' = ''"accessKeyId"''\<close>
    \<open>QuoteJSONString ''secretAccessKey'' = ''"secretAccessKey"''\<close>
    \<open>QuoteJSONString ''sessionToken'' = ''"sessionToken"''\<close>
    by (simp_all add: QuoteJSONString_def quote_char_def dquote_def backslash_def)
  have n: \<open>payload_text ?n = ''{"data":{"accessKeyId":'' @ QuoteJSONString a
        @ '',"secretAccessKey":'' @ QuoteJSONString s @ ''}}''\<close>
    by (simp add: payload_text_def requestData_def q)
  have t: \<open>payload_text ?t = ''{"data":{"accessKeyId":'' @ QuoteJSONString a
        @ '',"secretAccessKey":'' @ QuoteJSONString s
        @ '',"sessionToken":'' @ QuoteJSONString t @ ''}}''\<close>
    by (simp add: payload_text_def requestData_def q)
  have pn: "Option.bind (strip_prefix data_prefix (payload_text ?n)) parse_flat_object
      = Some ([(''accessKeyId'', a), (''secretAccessKey'', s)], ''}'')"
  proof -
    obtain u where u: "JSON_stringify (requestData ?n) = Some u"
      and p: "payload_text ?n = data_prefix @ u @ ''}''"
      using payload_text_eq by blast
    have "parse_flat_object (u @ ''}'') = Some (payload_fields ?n, ''}'')"
      using u unfolding JSON_stringify_requestData by (rule parse_flat_object_strings)
    then show ?thesis
      unfolding p strip_prefix_append by (simp add: payload_fields_def)
  qed
  have pt: "Option.bind (strip_prefix data_prefix (payload_text ?t)) parse_flat_object
      = Some ([(''accessKeyId'', a), (''secretAccessKey'', s), (''sessionToken'', t)], ''}'')"
  proof -
    obtain u where u: "JSON_stringify (requestData ?t) = Some u"
      and p: "payload_text ?t = data_prefix @ u @ ''}''"
      using payload_text_eq by blast
    have "parse_flat_object (u @ ''}'') = Some (payload_fields ?t, ''}'')"
      using u unfolding JSON_stringify_requestData by (rule parse_flat_object_strings)
    then show ?thesis
      unfolding p strip_prefix_append by (simp add: payload_fields_def)
  qed
  have c: "createUpdateIamCredentialsRequest seal iv key c
      = (case CompactEncrypt seal iv (TextEncoder_encode (payload_text c)) protectedHeader key of
           Inl e \<Rightarrow> Inl e
         | Inr jwt \<Rightarrow> Inr \<lparr>data = jwt\<rparr>)"
    by (simp add: createUpdateIamCredentialsRequest_def)
  from n pn t pt c show ?thesis by (intro conjI)
qed

end
